theory Spec2Isabelle
  imports Main "HOL-Library.Word"
begin

section \<open>PancakeSwap V3 swap engine: errors and addresses\<close>

text \<open>
  JavaScript exceptions are values. \<open>Error msg\<close> is \<^verbatim>\<open>new Error(msg)\<close> (also used for
  the errors raised by web3 and by chain reads); \<open>ReferenceError x\<close> is what the runtime
  raises when the identifier \<open>x\<close> is read without being declared in any enclosing scope.
\<close>

datatype js_error = Error string | ReferenceError string

fun message :: "js_error \<Rightarrow> string" where
  "message (Error m) = m"
| "message (ReferenceError x) = x @ '' is not defined''"

type_synonym address = string

section \<open>Nonce sequencing\<close>

text \<open>
  \<^verbatim>\<open>const nonceCache = {}\<close> is a module-level object keyed by wallet address; a missing key
  reads \<^verbatim>\<open>undefined\<close>. Nonces are JavaScript numbers holding transaction counts.
\<close>

type_synonym nonce_cache = "address \<rightharpoonup> nat"

text \<open>
  \<^verbatim>\<open>getNextNonce(address)\<close>. The two arguments \<open>read1\<close> and \<open>read2\<close> are the outcomes of the
  two \<^verbatim>\<open>web3.eth.getTransactionCount(address, 'pending')\<close> calls the function can make:
  the one inside \<^verbatim>\<open>try\<close> and the one inside \<^verbatim>\<open>catch\<close>. The second is only looked at when
  the first has raised; when it raises too, its error leaves the function.
  The result pairs the returned value (or the error) with the cache afterwards.
\<close>

definition getNextNonce ::
  "(js_error + nat) \<Rightarrow> (js_error + nat) \<Rightarrow> address \<Rightarrow> nonce_cache
     \<Rightarrow> (js_error + nat) \<times> nonce_cache" where
  "getNextNonce read1 read2 addr nonceCache =
     (case read1 of
        Inr onChainNonce \<Rightarrow>
          (let n = (case nonceCache addr of
                      None \<Rightarrow> onChainNonce
                    | Some cached \<Rightarrow> if cached < onChainNonce then onChainNonce else cached + 1)
           in (Inr n, nonceCache(addr \<mapsto> n)))
      | Inl error \<Rightarrow>
          (case read2 of
             Inr nonce \<Rightarrow> (Inr nonce, nonceCache)
           | Inl error2 \<Rightarrow> (Inl error2, nonceCache)))"

text \<open>
  A run of sequential calls: each element of the list holds the address the call is for
  and the two read outcomes of that call. The results are collected in call order, each
  with its address.
\<close>

fun nonce_calls ::
  "(address \<times> (js_error + nat) \<times> (js_error + nat)) list \<Rightarrow> nonce_cache
     \<Rightarrow> (address \<times> (js_error + nat)) list \<times> nonce_cache" where
  "nonce_calls [] nonceCache = ([], nonceCache)"
| "nonce_calls ((addr, read1, read2) # calls) nonceCache =
     (let (r, cache1) = getNextNonce read1 read2 addr nonceCache;
          (rs, cache2) = nonce_calls calls cache1
      in ((addr, r) # rs, cache2))"

text \<open>The values returned, in order, by the calls for \<open>a\<close> that returned (did not raise).\<close>

fun returned_to :: "address \<Rightarrow> (address \<times> (js_error + nat)) list \<Rightarrow> nat list" where
  "returned_to a [] = []"
| "returned_to a ((a', Inr n) # rs) = (if a' = a then n # returned_to a rs else returned_to a rs)"
| "returned_to a ((a', Inl e) # rs) = returned_to a rs"

fun succeeded :: "js_error + 'a \<Rightarrow> bool" where
  "succeeded (Inr v) = True"
| "succeeded (Inl e) = False"

text \<open>Every call of the run found its first chain read answered (with whatever value).\<close>

definition first_reads_ok :: "(address \<times> (js_error + nat) \<times> (js_error + nat)) list \<Rightarrow> bool" where
  "first_reads_ok calls = list_all (\<lambda>(a, read1, read2). succeeded read1) calls"

text \<open>The cache \<open>c'\<close> is nowhere behind the cache \<open>c\<close>: no entry was lost or lowered.\<close>

definition cache_le :: "nonce_cache \<Rightarrow> nonce_cache \<Rightarrow> bool" where
  "cache_le c c' = (\<forall>a n. c a = Some n \<longrightarrow> (\<exists>n'. c' a = Some n' \<and> n \<le> n'))"


section \<open>Strings as the runtime handles them\<close>

text \<open>
  The relational operator \<^verbatim>\<open><\<close> on two JavaScript strings compares them code unit by
  code unit; a proper prefix is smaller. For the ASCII strings met here the code unit of a
  character is its character code, so a digit is below an upper-case letter, which is
  below a lower-case letter.
\<close>

fun str_lt :: "string \<Rightarrow> string \<Rightarrow> bool" where
  "str_lt [] [] = False"
| "str_lt [] (y # ys) = True"
| "str_lt (x # xs) [] = False"
| "str_lt (x # xs) (y # ys) =
     (if (of_char x :: nat) < of_char y then True
      else if (of_char y :: nat) < of_char x then False
      else str_lt xs ys)"

text \<open>\<^verbatim>\<open>s.includes(sub)\<close>: \<open>sub\<close> occurs somewhere in \<open>s\<close>.\<close>

fun str_includes :: "string \<Rightarrow> string \<Rightarrow> bool" where
  "str_includes [] sub = (sub = [])"
| "str_includes (c # cs) sub = (take (length sub) (c # cs) = sub \<or> str_includes cs sub)"

text \<open>
  \<^verbatim>\<open>s.split('.')\<close>: the first two parts, which are all the code reads. \<open>before_dot s\<close> is
  \<^verbatim>\<open>parts[0]\<close>; \<open>before_dot (after_dot s)\<close> is \<^verbatim>\<open>parts[1]\<close> when \<open>s\<close> has a point.
\<close>

definition before_dot :: "string \<Rightarrow> string" where
  "before_dot s = takeWhile (\<lambda>c. c \<noteq> CHR ''.'') s"

definition after_dot :: "string \<Rightarrow> string" where
  "after_dot s = drop 1 (dropWhile (\<lambda>c. c \<noteq> CHR ''.'') s)"

text \<open>\<^verbatim>\<open>s.replace(/^0+/, '') || '0'\<close>: leading zeros removed, and \<^verbatim>\<open>'0'\<close> when nothing is left.\<close>

definition strip_leading_zeros :: "string \<Rightarrow> string" where
  "strip_leading_zeros s =
     (let r = dropWhile (\<lambda>c. c = CHR ''0'') s in if r = [] then ''0'' else r)"

text \<open>
  \<^verbatim>\<open>s.replace(/\.?0+$/, '')\<close>. The pattern needs at least one \<^verbatim>\<open>0\<close> at the very end. The
  leftmost match wins: when the run of zeros at the end is preceded by a point the match
  starts at that point, otherwise at the first zero of the run. With no zero at the end
  nothing matches and the string stays as it is, a trailing point included.
\<close>

definition strip_trailing_zeros :: "string \<Rightarrow> string" where
  "strip_trailing_zeros s =
     (let zeros = takeWhile (\<lambda>c. c = CHR ''0'') (rev s);
          front = rev (dropWhile (\<lambda>c. c = CHR ''0'') (rev s))
      in if zeros = [] then s
         else if front \<noteq> [] \<and> last front = CHR ''.'' then butlast front
         else front)"

text \<open>Decimal digits of a natural number, as \<^verbatim>\<open>toString(10)\<close> of a number or a BN prints them.\<close>

definition digit_char :: "nat \<Rightarrow> char" where
  "digit_char d = ''0123456789abcdef'' ! d"

fun show_nat :: "nat \<Rightarrow> string" where
  "show_nat n = (if n < 10 then [digit_char n] else show_nat (n div 10) @ [digit_char (n mod 10)])"

definition show_int :: "int \<Rightarrow> string" where
  "show_int i = (if i < 0 then CHR ''-'' # show_nat (nat (- i)) else show_nat (nat i))"

text \<open>\<^verbatim>\<open>n.toString(16)\<close> for a non-negative integer.\<close>

fun show_hex :: "nat \<Rightarrow> string" where
  "show_hex n = (if n < 16 then [digit_char n] else show_hex (n div 16) @ [digit_char (n mod 16)])"

text \<open>\<^verbatim>\<open>s.padStart(n, '0')\<close>.\<close>

definition padStart :: "nat \<Rightarrow> string \<Rightarrow> string" where
  "padStart n s = replicate (n - length s) CHR ''0'' @ s"

text \<open>The value of a character as a digit in base 16 (either case), if it is one.\<close>

definition hex_digit :: "char \<Rightarrow> nat option" where
  "hex_digit c = map_of
     (zip ''0123456789abcdef'' [0, 1, 2, 3, 4, 5, 6, 7, 8, 9, 10, 11, 12, 13, 14, 15] @
      zip ''ABCDEF'' [10, 11, 12, 13, 14, 15]) c"

definition is_digit :: "char \<Rightarrow> bool" where
  "is_digit c = (case hex_digit c of Some d \<Rightarrow> d < 10 | None \<Rightarrow> False)"

text \<open>The number a string of digits denotes in the given base, read left to right.\<close>

fun digits_value :: "nat \<Rightarrow> nat \<Rightarrow> string \<Rightarrow> nat" where
  "digits_value base acc [] = acc"
| "digits_value base acc (c # cs) =
     digits_value base (acc * base + (case hex_digit c of Some d \<Rightarrow> d | None \<Rightarrow> 0)) cs"

text \<open>\<^verbatim>\<open>s.toLowerCase()\<close> on ASCII strings.\<close>

definition lower_char :: "char \<Rightarrow> char" where
  "lower_char c =
     (case map_of (zip ''ABCDEFGHIJKLMNOPQRSTUVWXYZ'' ''abcdefghijklmnopqrstuvwxyz'') c of
        Some l \<Rightarrow> l | None \<Rightarrow> c)"

definition toLowerCase :: "string \<Rightarrow> string" where
  "toLowerCase s = map lower_char s"

section \<open>Big numbers and unit conversion of the web3 library\<close>

text \<open>
  A BN (bn.js) is an unbounded integer, modelled as \<open>int\<close>. \<^verbatim>\<open>a.div(b)\<close> rounds toward
  zero. \<^verbatim>\<open>a.pow(e)\<close> reads the bits of the magnitude of \<open>e\<close> only, so a negative exponent
  raises to its absolute value.
\<close>

definition BN_div :: "int \<Rightarrow> int \<Rightarrow> int" where
  "BN_div a b = sgn a * sgn b * (\<bar>a\<bar> div \<bar>b\<bar>)"

definition BN_pow :: "int \<Rightarrow> int \<Rightarrow> int" where
  "BN_pow a e = a ^ nat \<bar>e\<bar>"

text \<open>
  The texts of the errors the library raises are abridged.
  \<^verbatim>\<open>web3.utils.toBN(s)\<close> for a string \<open>s\<close> is the number-to-bn package of web3 1.x: the
  string is lower-cased and trimmed, an optional hex prefix and an optional minus sign are
  taken off, and what is left is read in base 16 when it has a hex prefix or a letter,
  in base 10 when it is all digits; anything else raises.
\<close>

definition is_space :: "char \<Rightarrow> bool" where
  "is_space c = (c \<in> set [CHR '' '', CHR 0x09, CHR 0x0A, CHR 0x0B, CHR 0x0C, CHR 0x0D])"

definition trim :: "string \<Rightarrow> string" where
  "trim s = rev (dropWhile is_space (rev (dropWhile is_space s)))"

definition stripHexPrefix :: "string \<Rightarrow> string" where
  "stripHexPrefix s = (if take 2 s = ''0x'' then drop 2 s else s)"

definition all_digits :: "string \<Rightarrow> bool" where
  "all_digits s = (s \<noteq> [] \<and> list_all is_digit s)"

definition all_hex :: "string \<Rightarrow> bool" where
  "all_hex s = (s \<noteq> [] \<and> list_all (\<lambda>c. hex_digit c \<noteq> None) s)"

definition all_hex_letters :: "string \<Rightarrow> bool" where
  "all_hex_letters s = (s \<noteq> [] \<and> list_all (\<lambda>c. hex_digit c \<noteq> None \<and> \<not> is_digit c) s)"

text \<open>The pattern \<^verbatim>\<open>/^-?[0-9]+$/\<close>, and the value \<^verbatim>\<open>new BN(s, 10)\<close> of a string matching it.\<close>

definition signed_digits :: "string \<Rightarrow> bool" where
  "signed_digits s = (if take 1 s = ''-'' then all_digits (drop 1 s) else all_digits s)"

definition signed_value :: "string \<Rightarrow> int" where
  "signed_value s =
     (if take 1 s = ''-'' then - int (digits_value 10 0 (drop 1 s)) else int (digits_value 10 0 s))"

definition toBN :: "string \<Rightarrow> js_error + int" where
  "toBN arg =
     (let formattedString = trim (toLowerCase arg);
          isHexPrefixed = (take 2 formattedString = ''0x'' \<or> take 3 formattedString = ''-0x'');
          s1 = stripHexPrefix formattedString;
          negative = (take 1 s1 = ''-'');
          s2 = (if negative then stripHexPrefix (drop 1 s1) else s1);
          multiplier = (if negative then - 1 else 1);
          stringArg = (if s2 = [] then ''0'' else s2)
      in if (\<not> signed_digits stringArg \<and> all_hex stringArg) \<or> all_hex_letters stringArg
            \<or> (isHexPrefixed \<and> all_hex stringArg)
         then Inr (int (digits_value 16 0 stringArg) * multiplier)
         else if signed_digits stringArg \<and> \<not> isHexPrefixed
         then Inr (signed_value stringArg * multiplier)
         else Inl (Error (''[number-to-bn] while converting number '' @ arg @
                '' to BN.js instance, error: invalid number value.'')))"

text \<open>
  The units \<^verbatim>\<open>getEtherUnit\<close> can name, with the number of zeros of their value in wei
  (\<^verbatim>\<open>unitMap\<close> of web3 1.x).
\<close>

definition unit_zeros :: "string \<Rightarrow> nat option" where
  "unit_zeros u = map_of
     [(''wei'', 0), (''kwei'', 3), (''mwei'', 6), (''gwei'', 9),
      (''microether'', 12), (''milliether'', 15), (''ether'', 18)] u"

text \<open>The pattern \<^verbatim>\<open>/^-?[0-9.]+$/\<close> that the library asks of a string amount.\<close>

definition decimal_chars :: "string \<Rightarrow> bool" where
  "decimal_chars s =
     (let t = (if take 1 s = ''-'' then drop 1 s else s)
      in t \<noteq> [] \<and> list_all (\<lambda>c. is_digit c \<or> c = CHR ''.'') t)"

text \<open>
  \<^verbatim>\<open>web3.utils.toWei(s, unit)\<close> of web3 1.x for a string \<open>s\<close> (the ethjs-unit package): the
  amount is split at the point, a fractional part longer than the unit has digits is
  refused, a shorter one is padded with zeros, and the result is printed in base 10.
\<close>

definition toWei :: "string \<Rightarrow> string \<Rightarrow> js_error + string" where
  "toWei etherInput unit =
     (case unit_zeros unit of
        None \<Rightarrow> Inl (Error (''This unit does not exist: '' @ unit))
      | Some z \<Rightarrow>
          if \<not> decimal_chars etherInput
          then Inl (Error (''while converting number to string, invalid number value '' @ etherInput))
          else
            let negative = (take 1 etherInput = ''-'');
                ether = (if negative then drop 1 etherInput else etherInput);
                baseLength = (if z = 0 then 1 else z)
            in if ether = ''.''
               then Inl (Error (''[ethjs-unit] while converting number '' @ etherInput @
                      '' to wei, invalid value''))
               else if 1 < length (filter (\<lambda>c. c = CHR ''.'') ether)
               then Inl (Error (''[ethjs-unit] while converting number '' @ etherInput @
                      '' to wei,  too many decimal points''))
               else
                 let whole = (if before_dot ether = [] then ''0'' else before_dot ether);
                     fraction = (if after_dot ether = [] then ''0'' else after_dot ether)
                 in if baseLength < length fraction
                    then Inl (Error (''[ethjs-unit] while converting number '' @ etherInput @
                           '' to wei, too many decimal places''))
                    else
                      let padded = fraction @ replicate (baseLength - length fraction) CHR ''0'';
                          wei = int (digits_value 10 0 whole) * 10 ^ z + int (digits_value 10 0 padded)
                      in Inr (show_int (if negative then - wei else wei)))"

text \<open>
  \<^verbatim>\<open>web3.utils.fromWei(s, unit)\<close> of web3 1.x for a string \<open>s\<close>: the fraction is padded on
  the left to the unit's digits, its trailing zeros are dropped, and the point is left out
  when the fraction is zero.
\<close>

definition fromWei :: "string \<Rightarrow> string \<Rightarrow> js_error + string" where
  "fromWei weiInput unit =
     (case unit_zeros unit of
        None \<Rightarrow> Inl (Error (''This unit does not exist: '' @ unit))
      | Some z \<Rightarrow>
          (case toBN weiInput of
             Inl e \<Rightarrow> Inl e
           | Inr wei0 \<Rightarrow>
               let negative = (wei0 < 0);
                   wei = nat \<bar>wei0\<bar>;
                   baseLength = (if z = 0 then 1 else z);
                   digits = show_nat (wei mod 10 ^ z);
                   padded = replicate (baseLength - length digits) CHR ''0'' @ digits;
                   stripped = rev (dropWhile (\<lambda>c. c = CHR ''0'') (rev padded));
                   fraction = (if stripped = [] then ''0'' else stripped);
                   whole = show_nat (wei div 10 ^ z);
                   v = whole @ (if fraction = ''0'' then [] else CHR ''.'' # fraction)
               in Inr (if negative then CHR ''-'' # v else v)))"

section \<open>Token units\<close>

text \<open>\<^verbatim>\<open>getEtherUnit(decimals)\<close>.\<close>

definition getEtherUnit :: "nat \<Rightarrow> string" where
  "getEtherUnit decimals =
     (if decimals = 3 then ''kwei''
      else if decimals = 6 then ''mwei''
      else if decimals = 9 then ''gwei''
      else if decimals = 12 then ''microether''
      else if decimals = 15 then ''milliether''
      else if decimals = 18 then ''ether''
      else if decimals < 18 then ''wei''
      else ''ether'')"

text \<open>\<^verbatim>\<open>[3, 6, 9, 12, 15, 18].includes(decimals)\<close>.\<close>

definition standard_decimals :: "nat \<Rightarrow> bool" where
  "standard_decimals decimals = (decimals \<in> set [3, 6, 9, 12, 15, 18])"

text \<open>The loop \<^verbatim>\<open>while (fractional.length < decimals) fractional += '0'\<close>.\<close>

function pad_fractional :: "nat \<Rightarrow> string \<Rightarrow> string" where
  "pad_fractional decimals fractional =
     (if length fractional < decimals then pad_fractional decimals (fractional @ ''0'')
      else fractional)"
  by pat_completeness auto
termination
  by (relation "measure (\<lambda>(decimals, fractional). decimals - length fractional)") auto

text \<open>
  The manual branch of \<^verbatim>\<open>toTokenUnits\<close>, taken for every \<open>decimals\<close> outside the list
  above. \<open>amountStr\<close> is \<^verbatim>\<open>amount.toString()\<close>.
\<close>

definition toTokenUnits_manual :: "string \<Rightarrow> nat \<Rightarrow> string" where
  "toTokenUnits_manual amountStr decimals =
     (if str_includes amountStr ''.'' then
        let whole = before_dot amountStr;
            fractional0 = before_dot (after_dot amountStr);
            fractional = (if decimals < length fractional0 then take decimals fractional0
                          else pad_fractional decimals fractional0);
            trimmedWhole = strip_leading_zeros whole
        in strip_leading_zeros (trimmedWhole @ fractional)
      else strip_leading_zeros (amountStr @ replicate decimals CHR ''0''))"

text \<open>
  \<^verbatim>\<open>toTokenUnits(amount, decimals)\<close> for a string \<open>amount\<close>. Whatever is raised inside is
  caught and replaced by one error that names the amount and the decimals.
\<close>

definition toTokenUnits :: "string \<Rightarrow> nat \<Rightarrow> js_error + string" where
  "toTokenUnits amount decimals =
     (case (if standard_decimals decimals then toWei amount (getEtherUnit decimals)
            else Inr (toTokenUnits_manual amount decimals)) of
        Inr r \<Rightarrow> Inr r
      | Inl error \<Rightarrow>
          Inl (Error (''Failed to convert '' @ amount @ '' to token units with '' @
                 show_nat decimals @ '' decimals'')))"

text \<open>The loop \<^verbatim>\<open>while (paddedAmount.length <= decimals) paddedAmount = '0' + paddedAmount\<close>.\<close>

function pad_amount :: "nat \<Rightarrow> string \<Rightarrow> string" where
  "pad_amount decimals paddedAmount =
     (if length paddedAmount \<le> decimals then pad_amount decimals (CHR ''0'' # paddedAmount)
      else paddedAmount)"
  by pat_completeness auto
termination
  by (relation "measure (\<lambda>(decimals, paddedAmount). Suc decimals - length paddedAmount)") auto

text \<open>
  \<^verbatim>\<open>fromTokenUnits(amount, decimals)\<close> for a string \<open>amount\<close>. An error of the library call
  is caught and the amount is returned as it came.
\<close>

definition fromTokenUnits :: "string \<Rightarrow> nat \<Rightarrow> string" where
  "fromTokenUnits amount decimals =
     (if standard_decimals decimals then
        (case fromWei amount (getEtherUnit decimals) of Inr r \<Rightarrow> r | Inl error \<Rightarrow> amount)
      else if amount = ''0'' then ''0''
      else
        let paddedAmount = pad_amount decimals amount;
            decimalPos = length paddedAmount - decimals;
            result = take decimalPos paddedAmount @ ''.'' @ drop decimalPos paddedAmount
        in strip_trailing_zeros result)"

section \<open>Numbers of the runtime\<close>

text \<open>
  A JavaScript number is an IEEE 754 double. A finite double is \<open>mant * 2 ^ expo\<close>; the
  canonical form has an odd \<open>mant\<close>, and zero is \<open>Double 0 0\<close>. The exponent range is not
  bounded here, so the model follows the runtime for magnitudes between \<open>2 ^ -1022\<close> and
  \<open>2 ^ 1024\<close>; infinities, NaN and the sign of zero are left out.
\<close>

datatype double = Double (mant: int) (expo: int)

function bitlen :: "int \<Rightarrow> nat" where
  "bitlen n = (if n \<le> 0 then 0 else Suc (bitlen (n div 2)))"
  by pat_completeness auto
termination
  by (relation "measure nat") auto

function declen :: "int \<Rightarrow> nat" where
  "declen n = (if n \<le> 0 then 0 else Suc (declen (n div 10)))"
  by pat_completeness auto
termination
  by (relation "measure nat") auto

function odd_part :: "int \<Rightarrow> int \<Rightarrow> double" where
  "odd_part m e =
     (if m = 0 then Double 0 0
      else if even m then odd_part (m div 2) (e + 1)
      else Double m e)"
  by pat_completeness auto
termination
  by (relation "measure (\<lambda>(m, e). nat \<bar>m\<bar>)") auto

text \<open>
  The double nearest to the rational \<open>p / q\<close> (for \<open>q > 0\<close>), ties going to the even
  significand. The quotient is first taken with one or two bits more than the 53 a
  significand holds: for the positive numerator \<open>a\<close> the scaling \<open>k\<close> makes \<open>a * 2 ^ k / q\<close>
  lie between \<open>2 ^ 53\<close> and \<open>2 ^ 55\<close>. The \<open>extra\<close> bits of the quotient \<open>n\<close>, together with
  the remainder \<open>r\<close> of the division, then decide the rounding.
\<close>

definition round_to_53 :: "int \<Rightarrow> int \<Rightarrow> int \<Rightarrow> nat \<Rightarrow> double" where
  "round_to_53 n r k extra =
     (if 2 ^ (extra - 1) < n mod 2 ^ extra
         \<or> (n mod 2 ^ extra = 2 ^ (extra - 1) \<and> (r \<noteq> 0 \<or> odd (n div 2 ^ extra)))
      then odd_part (n div 2 ^ extra + 1) (int extra - k)
      else odd_part (n div 2 ^ extra) (int extra - k))"

definition round_quotient :: "int \<Rightarrow> int \<Rightarrow> int \<Rightarrow> double" where
  "round_quotient num den k =
     round_to_53 (num div den) (num mod den) k (bitlen (num div den) - 53)"

definition nearest_positive :: "int \<Rightarrow> int \<Rightarrow> int \<Rightarrow> double" where
  "nearest_positive a q k =
     (if 0 \<le> k then round_quotient (a * 2 ^ nat k) q k
      else round_quotient a (q * 2 ^ nat (- k)) k)"

definition negate :: "double \<Rightarrow> double" where
  "negate x = Double (- mant x) (expo x)"

definition nearest_double :: "int \<Rightarrow> int \<Rightarrow> double" where
  "nearest_double p q =
     (if p = 0 then Double 0 0
      else if p < 0 then negate (nearest_positive (- p) q (int (bitlen q) + 54 - int (bitlen (- p))))
      else nearest_positive p q (int (bitlen q) + 54 - int (bitlen p)))"

text \<open>A double as a fraction: numerator and positive denominator.\<close>

definition numerator :: "double \<Rightarrow> int" where
  "numerator x = (if 0 \<le> expo x then mant x * 2 ^ nat (expo x) else mant x)"

definition denominator :: "double \<Rightarrow> int" where
  "denominator x = (if 0 \<le> expo x then 1 else 2 ^ nat (- expo x))"

text \<open>
  A decimal literal or a parsed decimal string with numerator \<open>p\<close> over \<open>q\<close>
  (\<^verbatim>\<open>1.1\<close> is \<open>number 11 10\<close>), the arithmetic operators \<^verbatim>\<open>*\<close> and \<^verbatim>\<open>-\<close>, each rounding
  its exact result, and \<^verbatim>\<open>Math.floor\<close>.
\<close>

definition number :: "int \<Rightarrow> int \<Rightarrow> double" where
  "number p q = nearest_double p q"

definition number_mul :: "double \<Rightarrow> double \<Rightarrow> double" where
  "number_mul x y = nearest_double (numerator x * numerator y) (denominator x * denominator y)"

definition number_sub :: "double \<Rightarrow> double \<Rightarrow> double" where
  "number_sub x y =
     nearest_double (numerator x * denominator y - numerator y * denominator x)
       (denominator x * denominator y)"

definition Math_floor :: "double \<Rightarrow> int" where
  "Math_floor x = numerator x div denominator x"

text \<open>
  \<^verbatim>\<open>Number.prototype.toString\<close> (ECMAScript, Number::toString): the digits are the
  shortest decimal \<open>s\<close> of \<open>k\<close> digits with \<open>s * 10 ^ (n - k)\<close> reading back as the same
  double, the closest one when several of that length do.

  \<open>decimal_exponent p q\<close> is the \<open>n\<close> with \<open>10 ^ (n - 1) \<le> p / q < 10 ^ n\<close>, for positive
  \<open>p\<close> and \<open>q\<close>.
\<close>

definition decimal_exponent :: "int \<Rightarrow> int \<Rightarrow> int" where
  "decimal_exponent p q =
     (if (if 0 \<le> int (declen p) - int (declen q)
          then 10 ^ nat (int (declen p) - int (declen q)) * q \<le> p
          else q \<le> p * 10 ^ nat (int (declen q) - int (declen p)))
      then int (declen p) - int (declen q) + 1
      else int (declen p) - int (declen q))"

text \<open>\<open>s * 10 ^ j\<close> reads back as the double \<open>x\<close>.\<close>

definition reads_back :: "double \<Rightarrow> int \<Rightarrow> int \<Rightarrow> bool" where
  "reads_back x s j =
     ((if 0 \<le> j then nearest_double (s * 10 ^ nat j) 1 else nearest_double s (10 ^ nat (- j))) = x)"

text \<open>
  The choice among the two \<open>k\<close>-digit neighbours \<open>lo\<close> and \<open>lo + 1\<close> of the positive double
  \<open>x\<close> scaled by \<open>10 ^ (k - n0)\<close>, where \<open>r / den\<close> is what the scaled \<open>x\<close> has beyond \<open>lo\<close>:
  none when neither reads back; else the one that does, and the closer of the two (the
  even one on a tie) when both do. Rounding up to \<open>10 ^ k\<close> moves to the next decade.
\<close>

definition pick_digits ::
  "int \<Rightarrow> nat \<Rightarrow> int \<Rightarrow> int \<Rightarrow> int \<Rightarrow> bool \<Rightarrow> bool \<Rightarrow> (int \<times> nat \<times> int) option" where
  "pick_digits n0 k lo r den lo_ok hi_ok =
     (if \<not> lo_ok \<and> \<not> hi_ok then None
      else if lo_ok \<and> (\<not> hi_ok \<or> 2 * r < den \<or> (2 * r = den \<and> even lo)) then Some (lo, k, n0)
      else if lo + 1 = 10 ^ k then Some (10 ^ (k - 1), k, n0 + 1)
      else Some (lo + 1, k, n0))"

definition digits_at :: "double \<Rightarrow> int \<Rightarrow> nat \<Rightarrow> int \<Rightarrow> int \<Rightarrow> (int \<times> nat \<times> int) option" where
  "digits_at x n0 k num den =
     pick_digits n0 k (num div den) (num mod den) den
       (reads_back x (num div den) (n0 - int k))
       (reads_back x (num div den + 1) (n0 - int k))"

definition k_digits :: "double \<Rightarrow> int \<Rightarrow> nat \<Rightarrow> (int \<times> nat \<times> int) option" where
  "k_digits x n0 k =
     (if 0 \<le> n0 - int k
      then digits_at x n0 k (numerator x) (denominator x * 10 ^ nat (n0 - int k))
      else digits_at x n0 k (numerator x * 10 ^ nat (int k - n0)) (denominator x))"

text \<open>
  The search for the digits of the positive double \<open>x\<close>, from \<open>k\<close> digits upwards;
  seventeen digits always suffice. The result is \<open>(s, k, n)\<close>.
\<close>

fun find_digits :: "nat \<Rightarrow> double \<Rightarrow> int \<Rightarrow> nat \<Rightarrow> int \<times> nat \<times> int" where
  "find_digits 0 x n0 k = (0, k, n0)"
| "find_digits (Suc fuel) x n0 k =
     (case k_digits x n0 k of
        Some d \<Rightarrow> d
      | None \<Rightarrow> find_digits fuel x n0 (Suc k))"

definition shortest_digits :: "double \<Rightarrow> int \<times> nat \<times> int" where
  "shortest_digits x = find_digits 17 x (decimal_exponent (numerator x) (denominator x)) 1"

text \<open>The digits laid out: plain, with a point, with leading zeros, or with an exponent.\<close>

definition layout_digits :: "string \<Rightarrow> nat \<Rightarrow> int \<Rightarrow> string" where
  "layout_digits digits k n =
     (if int k \<le> n \<and> n \<le> 21 then digits @ replicate (nat (n - int k)) CHR ''0''
      else if 0 < n \<and> n \<le> 21 then take (nat n) digits @ ''.'' @ drop (nat n) digits
      else if - 6 < n \<and> n \<le> 0 then ''0.'' @ replicate (nat (- n)) CHR ''0'' @ digits
      else if k = 1
      then digits @ (if n - 1 < 0 then ''e-'' else ''e+'') @ show_nat (nat \<bar>n - 1\<bar>)
      else take 1 digits @ ''.'' @ drop 1 digits @
           (if n - 1 < 0 then ''e-'' else ''e+'') @ show_nat (nat \<bar>n - 1\<bar>))"

definition positive_toString :: "double \<Rightarrow> string" where
  "positive_toString x =
     (case shortest_digits x of (s, k, n) \<Rightarrow> layout_digits (show_nat (nat s)) k n)"

definition number_toString :: "double \<Rightarrow> string" where
  "number_toString x =
     (if mant x = 0 then ''0''
      else if mant x < 0 then CHR ''-'' # positive_toString (negate x)
      else positive_toString x)"

section \<open>Constants\<close>

definition WBNB_ADDRESS :: address where
  "WBNB_ADDRESS = ''0xbb4CdB9CBd36B01bD1cBaEBF2De08d9173bc095c''"

definition PANCAKESWAP_ROUTER_ADDRESS :: address where
  "PANCAKESWAP_ROUTER_ADDRESS = ''0x13f4EA83D0bd40E75C8222255bc855a974568Dd4''"

definition ZERO_ADDRESS :: address where
  "ZERO_ADDRESS = ''0x0000000000000000000000000000000000000000''"

text \<open>\<^verbatim>\<open>FEE_TIERS\<close>, in hundredths of a basis point.\<close>

definition FEE_LOWEST :: nat where "FEE_LOWEST = 100"
definition FEE_LOW :: nat where "FEE_LOW = 500"
definition FEE_MEDIUM :: nat where "FEE_MEDIUM = 2500"
definition FEE_HIGH :: nat where "FEE_HIGH = 10000"

text \<open>The array \<^verbatim>\<open>[FEE_TIERS.LOWEST, FEE_TIERS.LOW, FEE_TIERS.MEDIUM, FEE_TIERS.HIGH]\<close>.\<close>

definition feeTiers :: "nat list" where
  "feeTiers = [FEE_LOWEST, FEE_LOW, FEE_MEDIUM, FEE_HIGH]"

section \<open>The node and the contracts\<close>

text \<open>
  What the quoter call resolves to: an object whose \<^verbatim>\<open>amountOut\<close> field may be missing,
  a plain string, a plain number, or anything else.
\<close>

datatype quote_result =
    QuoteObject "nat option"
  | QuoteString nat
  | QuoteNumber nat
  | QuoteOther

text \<open>The argument of \<^verbatim>\<open>router.methods.exactInput\<close>.\<close>

record swap_params =
  sp_path :: string
  sp_recipient :: address
  sp_deadline :: nat
  sp_amountIn :: string
  sp_amountOutMinimum :: int

text \<open>The argument of \<^verbatim>\<open>web3.eth.sendTransaction\<close>.\<close>

record transaction =
  tx_from :: address
  tx_to :: address
  tx_data :: string
  tx_value :: "string option"
  tx_gas :: int
  tx_gasPrice :: nat
  tx_nonce :: nat

text \<open>
  The options of \<^verbatim>\<open>tokenContract.methods.approve(spender, amount).send(options)\<close>, with
  the token, the spender and the amount.
\<close>

record approval =
  ap_token :: address
  ap_spender :: address
  ap_amount :: int
  ap_from :: address
  ap_gas :: nat
  ap_gasPrice :: nat
  ap_nonce :: nat

text \<open>What the engine has handed to the node for signing and broadcast.\<close>

datatype submission = SentTransaction transaction | SentApproval approval

text \<open>
  Everything the engine asks of the world outside the repository: the node behind
  \<^verbatim>\<open>web3.eth\<close>, the token, factory, pool, quoter and router contracts, key handling,
  address checksums (which need a hash), the ABI encoder and the clock (in seconds). A
  call that rejects is \<open>Inl\<close>.
  Values of Solidity type \<^verbatim>\<open>uint\<close> reach the code as canonical decimal strings; they are
  held here as \<open>nat\<close>, and \<^verbatim>\<open>web3.utils.toBN\<close> or \<^verbatim>\<open>safeBN\<close> of such a value is the number
  itself. One record describes the answers during one call of the engine.
\<close>

record chain =
  privateKeyToAccount :: "string \<Rightarrow> js_error + address"
  isAddress :: "string \<Rightarrow> bool"
  toChecksumAddress :: "string \<Rightarrow> js_error + string"
  getBalance :: "address \<Rightarrow> js_error + nat"
  getCode :: "address \<Rightarrow> js_error + string"
  getTransactionCount :: "address \<Rightarrow> js_error + nat"
  getGasPrice :: "js_error + nat"
  sendTransaction :: "transaction \<Rightarrow> js_error + string"
  call_symbol :: "address \<Rightarrow> js_error + string"
  call_name :: "address \<Rightarrow> js_error + string"
  call_decimals :: "address \<Rightarrow> js_error + nat"
  totalSupply :: "address \<Rightarrow> js_error + nat"
  balanceOf :: "address \<Rightarrow> address \<Rightarrow> js_error + nat"
  allowance :: "address \<Rightarrow> address \<Rightarrow> address \<Rightarrow> js_error + nat"
  getPool :: "address \<Rightarrow> address \<Rightarrow> nat \<Rightarrow> js_error + address"
  liquidity :: "address \<Rightarrow> js_error + nat"
  slot0 :: "address \<Rightarrow> js_error + nat"
  quoteExactInput :: "string \<Rightarrow> string \<Rightarrow> js_error + quote_result"
  encodeABI :: "swap_params \<Rightarrow> js_error + string"
  estimateGas :: "swap_params \<Rightarrow> address \<Rightarrow> string option \<Rightarrow> js_error + nat"
  approve :: "approval \<Rightarrow> js_error + string"
  clock :: nat

text \<open>Sequencing of steps that may raise: the first error ends the sequence.\<close>

definition and_then :: "js_error + 'a \<Rightarrow> ('a \<Rightarrow> js_error + 'b) \<Rightarrow> js_error + 'b" where
  "and_then m f = (case m of Inl e \<Rightarrow> Inl e | Inr x \<Rightarrow> f x)"

section \<open>Token information\<close>

record token_info =
  ti_symbol :: string
  ti_name :: string
  ti_decimals :: nat

definition BNB_TOKEN_INFO :: token_info where
  "BNB_TOKEN_INFO = \<lparr>ti_symbol = ''BNB'', ti_name = ''Binance Coin'', ti_decimals = 18\<rparr>"

text \<open>
  \<^verbatim>\<open>getTokenInfo(tokenAddress)\<close>. The three reads are awaited together; the first in the
  list that rejects decides the error, which is wrapped.
\<close>

definition getTokenInfo :: "chain \<Rightarrow> string \<Rightarrow> js_error + token_info" where
  "getTokenInfo c tokenAddress =
     (if toLowerCase tokenAddress = ''bnb'' then Inr BNB_TOKEN_INFO
      else
        (case (if \<not> isAddress c tokenAddress then Inl (Error ''Invalid token address'')
               else and_then (call_symbol c tokenAddress) (\<lambda>s.
                    and_then (call_name c tokenAddress) (\<lambda>n.
                    and_then (call_decimals c tokenAddress) (\<lambda>d.
                      Inr \<lparr>ti_symbol = s, ti_name = n, ti_decimals = d\<rparr>)))) of
           Inr info \<Rightarrow> Inr info
         | Inl error \<Rightarrow> Inl (Error (''Failed to get token info: '' @ message error))))"

section \<open>Fee tier selection\<close>

text \<open>
  The first loop of \<^verbatim>\<open>findBestFeeTier\<close>. The loop state is
  \<open>(bestFeeTier, maxLiquidity, poolsFound)\<close>; an error of either read is caught inside the
  iteration and the loop goes on.
\<close>

fun scan_fee_tiers ::
  "chain \<Rightarrow> address \<Rightarrow> address \<Rightarrow> nat list \<Rightarrow> nat \<times> int \<times> bool \<Rightarrow> nat \<times> int \<times> bool" where
  "scan_fee_tiers c tokenA tokenB [] st = st"
| "scan_fee_tiers c tokenA tokenB (fee # fees) (bestFeeTier, maxLiquidity, poolsFound) =
     (case getPool c tokenA tokenB fee of
        Inl error \<Rightarrow> scan_fee_tiers c tokenA tokenB fees (bestFeeTier, maxLiquidity, poolsFound)
      | Inr poolAddress \<Rightarrow>
          if poolAddress \<noteq> ZERO_ADDRESS then
            (case liquidity c poolAddress of
               Inl error \<Rightarrow> scan_fee_tiers c tokenA tokenB fees (bestFeeTier, maxLiquidity, True)
             | Inr liq \<Rightarrow>
                 if maxLiquidity < int liq
                 then scan_fee_tiers c tokenA tokenB fees (fee, int liq, True)
                 else scan_fee_tiers c tokenA tokenB fees (bestFeeTier, maxLiquidity, True))
          else scan_fee_tiers c tokenA tokenB fees (bestFeeTier, maxLiquidity, poolsFound))"

text \<open>
  The second loop, run when \<open>maxLiquidity\<close> is still zero: the first tier whose pool
  address reads as non-zero; read errors are ignored.
\<close>

fun first_existing_pool :: "chain \<Rightarrow> address \<Rightarrow> address \<Rightarrow> nat list \<Rightarrow> nat option" where
  "first_existing_pool c tokenA tokenB [] = None"
| "first_existing_pool c tokenA tokenB (fee # fees) =
     (case getPool c tokenA tokenB fee of
        Inl error \<Rightarrow> first_existing_pool c tokenA tokenB fees
      | Inr poolAddress \<Rightarrow>
          if poolAddress \<noteq> ZERO_ADDRESS then Some fee
          else first_existing_pool c tokenA tokenB fees)"

text \<open>
  \<^verbatim>\<open>findBestFeeTier(tokenA, tokenB)\<close>. Nothing inside the outer \<^verbatim>\<open>try\<close> can raise, every
  read being caught where it is made, so the outer \<^verbatim>\<open>catch\<close> has no branch here.
\<close>

definition findBestFeeTier :: "chain \<Rightarrow> address \<Rightarrow> address \<Rightarrow> nat" where
  "findBestFeeTier c tokenA tokenB =
     (let (bestFeeTier, maxLiquidity, poolsFound) =
            scan_fee_tiers c tokenA tokenB feeTiers (FEE_MEDIUM, 0, False)
      in if maxLiquidity = 0 then
           (case first_existing_pool c tokenA tokenB feeTiers of
              Some fee \<Rightarrow> fee
            | None \<Rightarrow> FEE_MEDIUM)
         else bestFeeTier)"



section \<open>Pool validation\<close>

text \<open>
  The pair as both \<^verbatim>\<open>validatePancakeV3Pool\<close> and the price estimates order it: the two
  checksummed strings are compared with \<^verbatim>\<open><\<close>. \<^verbatim>\<open>toChecksumAddress\<close> raises on a string
  that is not an address.
\<close>

definition sortedTokens :: "chain \<Rightarrow> address \<Rightarrow> js_error + address \<times> address" where
  "sortedTokens c tokenAddress =
     and_then (toChecksumAddress c tokenAddress) (\<lambda>a.
     and_then (toChecksumAddress c WBNB_ADDRESS) (\<lambda>b.
       Inr (if str_lt a b then (tokenAddress, WBNB_ADDRESS) else (WBNB_ADDRESS, tokenAddress))))"

text \<open>The number an address denotes: its forty hexadecimal digits.\<close>

definition address_value :: "address \<Rightarrow> nat" where
  "address_value a = digits_value 16 0 (drop 2 a)"

text \<open>
  The canonical order of a pair, as the factory contract keeps it: ascending by the number
  the address denotes. This is the order the comment in \<^verbatim>\<open>validatePancakeV3Pool\<close> names
  (\<^verbatim>\<open>lower address should be first\<close>); the code is \<open>sortedTokens\<close> above.
\<close>

definition canonical_pair :: "address \<Rightarrow> address \<Rightarrow> address \<times> address" where
  "canonical_pair a b = (if address_value a < address_value b then (a, b) else (b, a))"

text \<open>\<^verbatim>\<open>validatePancakeV3Pool(tokenAddress, feeTier)\<close>.\<close>

definition validatePancakeV3Pool :: "chain \<Rightarrow> address \<Rightarrow> nat \<Rightarrow> bool" where
  "validatePancakeV3Pool c tokenAddress feeTier =
     (case sortedTokens c tokenAddress of
        Inl error \<Rightarrow> False
      | Inr (token0, token1) \<Rightarrow>
          (case getPool c token0 token1 feeTier of
             Inl error \<Rightarrow> False
           | Inr poolAddress \<Rightarrow>
               if poolAddress = ZERO_ADDRESS then False
               else
                 (case liquidity c poolAddress of
                    Inl error \<Rightarrow> False
                  | Inr liq \<Rightarrow>
                      if liq \<le> 1000000 then False
                      else
                        (case slot0 c poolAddress of
                           Inl error \<Rightarrow> False
                         | Inr sqrtPriceX96 \<Rightarrow> if sqrtPriceX96 = 0 then False else True))))"

section \<open>The risk heuristic\<close>

text \<open>
  \<^verbatim>\<open>checkForHoneypot(tokenAddress)\<close>. A rejected \<^verbatim>\<open>totalSupply\<close> read is replaced by
  \<^verbatim>\<open>'0'\<close> on the spot and its value is not used; a rejected \<^verbatim>\<open>getCode\<close> read reaches the
  \<^verbatim>\<open>catch\<close>, which returns \<^verbatim>\<open>false\<close>. \<^verbatim>\<open>code.length\<close> counts the characters of the string.
  Building the contract object raises for a string that is not an address; \<^verbatim>\<open>getCode\<close>
  refuses the same strings, so that case is a failed \<^verbatim>\<open>getCode\<close> read here.
\<close>

definition checkForHoneypot :: "chain \<Rightarrow> address \<Rightarrow> bool" where
  "checkForHoneypot c tokenAddress =
     (case getCode c tokenAddress of
        Inl error \<Rightarrow> False
      | Inr code \<Rightarrow>
          let unusualCodeSize = (50000 < length code);
              totalSupply = (case totalSupply c tokenAddress of Inl error \<Rightarrow> 0 | Inr n \<Rightarrow> n);
              hasIndicators = (str_includes code ''owner'' \<and> str_includes code ''blacklist''
                                 \<and> str_includes code ''swap'')
          in unusualCodeSize \<or> hasIndicators)"

section \<open>Path encoding\<close>

text \<open>
  \<^verbatim>\<open>encodePath(tokenAddresses, fees)\<close>: each address without its two leading characters,
  each fee as six hexadecimal digits.
\<close>

fun encodePath_loop :: "address list \<Rightarrow> nat list \<Rightarrow> string" where
  "encodePath_loop (t # ts) (f # fs) = drop 2 t @ padStart 6 (show_hex f) @ encodePath_loop ts fs"
| "encodePath_loop ts fs = []"

definition encodePath :: "address list \<Rightarrow> nat list \<Rightarrow> js_error + string" where
  "encodePath tokenAddresses fees =
     (if length tokenAddresses \<noteq> length fees + 1
      then Inl (Error ''tokenAddresses.length must be equal to fees.length + 1'')
      else Inr (''0x'' @ encodePath_loop tokenAddresses fees @ drop 2 (last tokenAddresses)))"

section \<open>Safe conversion to a big number\<close>

text \<open>
  The values \<^verbatim>\<open>safeBN\<close> tells apart: \<^verbatim>\<open>undefined\<close>, \<^verbatim>\<open>null\<close>, a web3 BigNumber, a BN, an
  object with an \<^verbatim>\<open>amountOut\<close> field, any other object, a string and a number.
\<close>

datatype js_value =
    Undefined
  | Null
  | BigNumberValue int
  | BNValue int
  | ResponseObject js_value
  | OtherObject
  | StringValue string
  | NumberValue double

text \<open>
  The last part of \<^verbatim>\<open>safeBN\<close>, on the text of a string or a number: trimmed, cut at the
  first point, and handed to \<^verbatim>\<open>web3.utils.toBN\<close>; when that raises, the \<^verbatim>\<open>catch\<close> returns
  the default, \<^verbatim>\<open>toBN("0")\<close>.
\<close>

definition safeBN_text :: "string \<Rightarrow> int" where
  "safeBN_text text =
     (case toBN (if str_includes (trim text) ''.'' then before_dot (trim text) else trim text) of
        Inr v \<Rightarrow> v
      | Inl error \<Rightarrow> 0)"

text \<open>\<^verbatim>\<open>safeBN(value)\<close> with the default \<^verbatim>\<open>"0"\<close>.\<close>

fun safeBN :: "js_value \<Rightarrow> int" where
  "safeBN Undefined = 0"
| "safeBN Null = 0"
| "safeBN (BigNumberValue i) = i"
| "safeBN (BNValue i) = i"
| "safeBN (ResponseObject amountOut) = (if amountOut = Undefined then 0 else safeBN amountOut)"
| "safeBN OtherObject = 0"
| "safeBN (StringValue s) = safeBN_text s"
| "safeBN (NumberValue x) = safeBN_text (number_toString x)"

section \<open>The minimum output\<close>

text \<open>The number \<^verbatim>\<open>10000 - slippagePercent * 100\<close>, in the arithmetic of doubles.\<close>

definition slippageFactor :: "double \<Rightarrow> double" where
  "slippageFactor slippagePercent =
     number_sub (number 10000 1) (number_mul slippagePercent (number 100 1))"

text \<open>
  The block ``Calculate minimum output amount based on slippage'' of \<^verbatim>\<open>buyToken\<close> and
  \<^verbatim>\<open>sellToken\<close>. \<open>expectedOutputAmount\<close> is the number whose decimal text the variable
  holds. Neither \<^verbatim>\<open>safeBN\<close> nor the BN operations raise, so the \<^verbatim>\<open>catch\<close> of the block
  (which would set the minimum to 1) has no branch here.
\<close>

definition amountOutMin_safe :: "int \<Rightarrow> double \<Rightarrow> int" where
  "amountOutMin_safe expectedOutputAmount slippagePercent =
     (if safeBN (NumberValue (number 10000 1)) = 0
      then safeBN (StringValue (show_int expectedOutputAmount))
      else BN_div (safeBN (StringValue (show_int expectedOutputAmount))
                     * safeBN (NumberValue (slippageFactor slippagePercent)))
                  (safeBN (NumberValue (number 10000 1))))"

text \<open>
  The same computation in \<^verbatim>\<open>buyTokenWithFeeTier\<close> and \<^verbatim>\<open>sellTokenWithFeeTier\<close>, where the
  three values go to \<^verbatim>\<open>web3.utils.toBN\<close> directly and an error is not caught. For a
  number, \<^verbatim>\<open>toBN\<close> works on its text.
\<close>

definition amountOutMin_direct :: "int \<Rightarrow> double \<Rightarrow> js_error + int" where
  "amountOutMin_direct expectedOutputAmount slippagePercent =
     and_then (toBN (show_int expectedOutputAmount)) (\<lambda>expected.
     and_then (toBN (number_toString (slippageFactor slippagePercent))) (\<lambda>factor.
     and_then (toBN (number_toString (number 10000 1))) (\<lambda>divisor.
       Inr (BN_div (expected * factor) divisor))))"

section \<open>Quoting\<close>

text \<open>
  Level 1, the same in all four entry points: the quoter call and the reading of its
  answer. A missing \<^verbatim>\<open>amountOut\<close> and an answer of another type raise inside the \<^verbatim>\<open>try\<close>.
\<close>

definition quoter_amount :: "js_error + quote_result \<Rightarrow> js_error + int" where
  "quoter_amount quoteResult =
     (case quoteResult of
        Inl error \<Rightarrow> Inl error
      | Inr (QuoteObject (Some amountOut)) \<Rightarrow> Inr (int amountOut)
      | Inr (QuoteObject None) \<Rightarrow> Inl (Error ''Unexpected quoter response format'')
      | Inr (QuoteString n) \<Rightarrow> Inr (int n)
      | Inr (QuoteNumber n) \<Rightarrow> Inr (int n)
      | Inr QuoteOther \<Rightarrow> Inl (Error ''Unexpected quoter response format''))"

text \<open>
  The price from \<open>sqrtPriceX96\<close>: the reciprocal branch when the input token is token0 of
  the pair as ordered, the plain branch otherwise.
\<close>

definition pool_price :: "bool \<Rightarrow> int \<Rightarrow> js_error + int" where
  "pool_price input_is_token0 sqrtPriceX96 =
     (if input_is_token0 then
        (if sqrtPriceX96 * sqrtPriceX96 = 0
         then Inl (Error ''Price calculation failed: sqrtPriceSquared is zero'')
         else Inr (BN_div (BN_pow 2 96 * BN_pow 2 96) (sqrtPriceX96 * sqrtPriceX96)))
      else Inr (BN_div (sqrtPriceX96 * sqrtPriceX96) (BN_pow 2 96 * BN_pow 2 96)))"

text \<open>
  The inner \<^verbatim>\<open>try\<close> of level 2 in the two buy entry points: price, decimal adjustment,
  rough output and the 10% haircut.
\<close>

definition estimate_buy :: "address \<times> address \<Rightarrow> nat \<Rightarrow> token_info \<Rightarrow> string \<Rightarrow> js_error + int" where
  "estimate_buy ordered sqrtPrice tokenInfo bnbAmountWei =
     and_then (pool_price (fst ordered = WBNB_ADDRESS) (safeBN (StringValue (show_nat sqrtPrice))))
       (\<lambda>price.
          if BN_pow (safeBN (NumberValue (number 10 1))) (safeBN (NumberValue (number 18 1))) = 0
          then Inl (Error ''Division by zero error in price calculation'')
          else Inr (BN_div
                 (BN_div (safeBN (StringValue bnbAmountWei)
                            * (price * BN_pow 10 (18 - int (ti_decimals tokenInfo))))
                         (BN_pow (safeBN (NumberValue (number 10 1)))
                                 (safeBN (NumberValue (number 18 1))))
                    * safeBN (NumberValue (number 90 1)))
                 (safeBN (NumberValue (number 100 1)))))"

text \<open>The inner \<^verbatim>\<open>try\<close> of level 2 in the two sell entry points.\<close>

definition estimate_sell ::
  "address \<times> address \<Rightarrow> address \<Rightarrow> nat \<Rightarrow> token_info \<Rightarrow> string \<Rightarrow> js_error + int" where
  "estimate_sell ordered tokenAddress sqrtPrice tokenInfo tokenAmountInUnits =
     and_then (pool_price (fst ordered = tokenAddress) (safeBN (StringValue (show_nat sqrtPrice))))
       (\<lambda>price.
          if BN_pow (safeBN (NumberValue (number 10 1)))
                    (safeBN (NumberValue (number (int (ti_decimals tokenInfo)) 1))) = 0
          then Inl (Error ''Division by zero error in price calculation'')
          else Inr (BN_div
                 (BN_div (safeBN (StringValue tokenAmountInUnits)
                            * (price * BN_pow 10 (int (ti_decimals tokenInfo) - 18)))
                         (BN_pow (safeBN (NumberValue (number 10 1)))
                                 (safeBN (NumberValue (number (int (ti_decimals tokenInfo)) 1))))
                    * safeBN (NumberValue (number 90 1)))
                 (safeBN (NumberValue (number 100 1)))))"

text \<open>
  Level 2 up to the pool read, shared by all four: the pair is ordered, the pool address
  and \<^verbatim>\<open>slot0\<close> are read. \<open>None\<close> stands for the zero address, \<open>Some\<close> for the ordered pair
  with \<open>sqrtPriceX96\<close>.
\<close>

definition pool_state ::
  "chain \<Rightarrow> address \<Rightarrow> nat \<Rightarrow> js_error + ((address \<times> address) \<times> nat) option" where
  "pool_state c tokenAddress feeTier =
     and_then (sortedTokens c tokenAddress) (\<lambda>ordered.
     and_then (getPool c (fst ordered) (snd ordered) feeTier) (\<lambda>poolAddress.
       if poolAddress \<noteq> ZERO_ADDRESS
       then and_then (slot0 c poolAddress) (\<lambda>sqrtPrice. Inr (Some (ordered, sqrtPrice)))
       else Inr None))"

text \<open>The fixed value used when no estimate can be had.\<close>

definition MINIMAL_FALLBACK :: int where
  "MINIMAL_FALLBACK = 1000"

text \<open>
  The quoting block of \<^verbatim>\<open>buyToken\<close>: the result is \<open>(expectedOutputAmount, usedFallback)\<close>.
  The three \<^verbatim>\<open>catch\<close> clauses are the three places where an \<open>Inl\<close> is replaced.
\<close>

definition buyToken_quote ::
  "chain \<Rightarrow> address \<Rightarrow> token_info \<Rightarrow> nat \<Rightarrow> string \<Rightarrow> string \<Rightarrow> js_error + int \<times> bool" where
  "buyToken_quote c tokenAddress tokenInfo feeTier path bnbAmountWei =
     (case quoter_amount (quoteExactInput c path bnbAmountWei) of
        Inr amount \<Rightarrow> Inr (amount, False)
      | Inl quoteError \<Rightarrow>
          (case pool_state c tokenAddress feeTier of
             Inr (Some (ordered, sqrtPrice)) \<Rightarrow>
               (case estimate_buy ordered sqrtPrice tokenInfo bnbAmountWei of
                  Inr amount \<Rightarrow> Inr (amount, True)
                | Inl calcError \<Rightarrow> Inr (MINIMAL_FALLBACK, True))
           | Inr None \<Rightarrow> Inr (MINIMAL_FALLBACK, True)
           | Inl fallbackError \<Rightarrow> Inr (MINIMAL_FALLBACK, True)))"

text \<open>The quoting block of \<^verbatim>\<open>sellToken\<close>.\<close>

definition sellToken_quote ::
  "chain \<Rightarrow> address \<Rightarrow> token_info \<Rightarrow> nat \<Rightarrow> string \<Rightarrow> string \<Rightarrow> js_error + int \<times> bool" where
  "sellToken_quote c tokenAddress tokenInfo feeTier path tokenAmountInUnits =
     (case quoter_amount (quoteExactInput c path tokenAmountInUnits) of
        Inr amount \<Rightarrow> Inr (amount, False)
      | Inl quoteError \<Rightarrow>
          (case pool_state c tokenAddress feeTier of
             Inr (Some (ordered, sqrtPrice)) \<Rightarrow>
               (case estimate_sell ordered tokenAddress sqrtPrice tokenInfo tokenAmountInUnits of
                  Inr amount \<Rightarrow> Inr (amount, True)
                | Inl calcError \<Rightarrow> Inr (MINIMAL_FALLBACK, True))
           | Inr None \<Rightarrow> Inr (MINIMAL_FALLBACK, True)
           | Inl fallbackError \<Rightarrow> Inr (MINIMAL_FALLBACK, True)))"

text \<open>
  The text of \<^verbatim>\<open>feeTier/10000\<close> in a message: the quotient as a double, printed.
\<close>

definition fee_percent :: "nat \<Rightarrow> string" where
  "fee_percent feeTier = number_toString (number (int feeTier) 10000)"

text \<open>
  The quoting block of \<^verbatim>\<open>buyTokenWithFeeTier\<close>: a missing pool raises, and the outer
  \<^verbatim>\<open>catch\<close> of level 2 raises again with a message of its own.
\<close>

definition could_not_estimate :: "nat \<Rightarrow> js_error \<Rightarrow> js_error" where
  "could_not_estimate feeTier fallbackError =
     Error (''Could not estimate price for '' @ fee_percent feeTier @ ''% fee tier: '' @
            message fallbackError)"

definition no_pool_exists :: "nat \<Rightarrow> js_error" where
  "no_pool_exists feeTier =
     Error (''No pool exists for this token with the '' @ fee_percent feeTier @
            ''% fee tier. Try using the auto-select option instead.'')"

definition buyTokenWithFeeTier_quote ::
  "chain \<Rightarrow> address \<Rightarrow> token_info \<Rightarrow> nat \<Rightarrow> string \<Rightarrow> string \<Rightarrow> js_error + int \<times> bool" where
  "buyTokenWithFeeTier_quote c tokenAddress tokenInfo feeTier path bnbAmountWei =
     (case quoter_amount (quoteExactInput c path bnbAmountWei) of
        Inr amount \<Rightarrow> Inr (amount, False)
      | Inl quoteError \<Rightarrow>
          (case pool_state c tokenAddress feeTier of
             Inr (Some (ordered, sqrtPrice)) \<Rightarrow>
               (case estimate_buy ordered sqrtPrice tokenInfo bnbAmountWei of
                  Inr amount \<Rightarrow> Inr (amount, True)
                | Inl calcError \<Rightarrow> Inr (MINIMAL_FALLBACK, True))
           | Inr None \<Rightarrow> Inl (could_not_estimate feeTier (no_pool_exists feeTier))
           | Inl fallbackError \<Rightarrow> Inl (could_not_estimate feeTier fallbackError)))"

text \<open>The quoting block of \<^verbatim>\<open>sellTokenWithFeeTier\<close>.\<close>

definition sellTokenWithFeeTier_quote ::
  "chain \<Rightarrow> address \<Rightarrow> token_info \<Rightarrow> nat \<Rightarrow> string \<Rightarrow> string \<Rightarrow> js_error + int \<times> bool" where
  "sellTokenWithFeeTier_quote c tokenAddress tokenInfo feeTier path tokenAmountInUnits =
     (case quoter_amount (quoteExactInput c path tokenAmountInUnits) of
        Inr amount \<Rightarrow> Inr (amount, False)
      | Inl quoteError \<Rightarrow>
          (case pool_state c tokenAddress feeTier of
             Inr (Some (ordered, sqrtPrice)) \<Rightarrow>
               (case estimate_sell ordered tokenAddress sqrtPrice tokenInfo tokenAmountInUnits of
                  Inr amount \<Rightarrow> Inr (amount, True)
                | Inl calcError \<Rightarrow> Inr (MINIMAL_FALLBACK, True))
           | Inr None \<Rightarrow> Inl (could_not_estimate feeTier (no_pool_exists feeTier))
           | Inl fallbackError \<Rightarrow> Inl (could_not_estimate feeTier fallbackError)))"

section \<open>The four entry points\<close>

text \<open>
  What lives for the lifetime of the process: the nonce cache, the wallet of
  \<^verbatim>\<open>web3.eth.accounts\<close> holding the keys added for signing, and (to state what an entry
  point did) the list of what was handed to the node for broadcast, in order.
\<close>

record engine =
  nonceCache :: nonce_cache
  wallet :: "address list"
  submitted :: "submission list"

text \<open>
  Reading an identifier: it resolves when a declaration of that name is in scope, and
  raises a ReferenceError otherwise.
\<close>

definition reference :: "string list \<Rightarrow> string \<Rightarrow> 'a \<Rightarrow> js_error + 'a" where
  "reference scope ident v = (if ident \<in> set scope then Inr v else Inl (ReferenceError ident))"

text \<open>Every name the module declares at its top level: imports, constants and functions.\<close>

definition module_scope :: "string list" where
  "module_scope =
     [''Web3'', ''axios'', ''erc20Abi'', ''routerAbiV3'', ''factoryAbiV3'', ''poolAbiV3'',
      ''quoterAbiV3'', ''BSC_RPC_URL'', ''PANCAKESWAP_ROUTER_ADDRESS'',
      ''PANCAKESWAP_FACTORY_ADDRESS'', ''PANCAKESWAP_QUOTER_ADDRESS'', ''WBNB_ADDRESS'',
      ''BNB_TOKEN_INFO'', ''DEFAULT_SLIPPAGE'', ''DEFAULT_DEADLINE_MINUTES'', ''MAX_UINT256'',
      ''GAS_MULTIPLIER'', ''FEE_TIERS'', ''DEBUG_MODE'', ''web3'', ''router'', ''factory'',
      ''quoter'', ''nonceCache'', ''getNextNonce'', ''debugLog'', ''debugError'', ''safeBN'',
      ''inspect'', ''getTokenInfo'', ''findBestFeeTier'', ''encodePath'', ''getDeadline'',
      ''getGasPrice'', ''toTokenUnits'', ''fromTokenUnits'', ''getEtherUnit'',
      ''checkForHoneypot'', ''validatePancakeV3Pool'', ''buyToken'', ''sellToken'',
      ''buyTokenWithFeeTier'', ''sellTokenWithFeeTier'']"

text \<open>
  The parameters and the local declarations of \<^verbatim>\<open>sellToken\<close>, with those of its nested
  blocks, on top of the module's names.
\<close>

definition sellToken_scope :: "string list" where
  "sellToken_scope =
     [''privateKey'', ''tokenAddress'', ''tokenAmount'', ''slippagePercent'', ''account'',
      ''walletAddress'', ''tokenInfo'', ''tokenAmountInUnits'', ''tokenBalance'', ''feeTier'',
      ''isPoolValid'', ''feeTiers'', ''foundValidPool'', ''alternativeFee'', ''path'',
      ''expectedOutputAmount'', ''usedFallback'', ''quoteResult'', ''sortedTokens'',
      ''poolAddress'', ''poolContract'', ''slot0'', ''sqrtPriceX96'', ''Q96'', ''price'',
      ''sqrtPriceSquared'', ''decimalAdjustment'', ''inputAmount'', ''divisionFactor'',
      ''roughOutputAmount'', ''amountOutMin'', ''bnExpectedOutput'', ''bnSlippageFactor'',
      ''bnDivisor'', ''nonce'', ''allowance'', ''approveAmount'', ''approveTx'', ''recipient'',
      ''deadline'', ''gasPrice'', ''swapParams'', ''swapData'', ''estimatedGas'', ''tx'',
      ''error'', ''quoteError'', ''calcError'', ''fallbackError'', ''e'']
     @ module_scope"

text \<open>
  \<^verbatim>\<open>sellTokenWithFeeTier\<close> declares the same names, and also
  \<^verbatim>\<open>const tokenContract = new web3.eth.Contract(erc20Abi, tokenAddress)\<close>.
\<close>

definition sellTokenWithFeeTier_scope :: "string list" where
  "sellTokenWithFeeTier_scope = [''tokenContract'', ''specificFeeTier''] @ sellToken_scope"

text \<open>What an entry point has worked out when it turns to the node to trade.\<close>

record order =
  order_path :: string
  order_amountIn :: string
  order_amountOutMin :: int

text \<open>
  The choice of the tier in \<^verbatim>\<open>buyToken\<close> and \<^verbatim>\<open>sellToken\<close>: the best tier when its pool
  validates, else the first of the other tiers, in ascending order, whose pool does.
\<close>

definition NO_VALID_POOL :: js_error where
  "NO_VALID_POOL = Error (''No valid PancakeSwap V3 pool found with sufficient liquidity. '' @
                          ''Trading may not be possible at this time.'')"

definition select_feeTier :: "chain \<Rightarrow> address \<Rightarrow> nat \<Rightarrow> js_error + nat" where
  "select_feeTier c tokenAddress bestFeeTier =
     (if validatePancakeV3Pool c tokenAddress bestFeeTier then Inr bestFeeTier
      else (case find (validatePancakeV3Pool c tokenAddress)
                   (filter (\<lambda>fee. fee \<noteq> bestFeeTier) feeTiers) of
              Some alternativeFee \<Rightarrow> Inr alternativeFee
            | None \<Rightarrow> Inl NO_VALID_POOL))"

text \<open>The tier in the two pinned entry points: the given one, or an error.\<close>

definition pinned_feeTier :: "chain \<Rightarrow> address \<Rightarrow> nat \<Rightarrow> js_error + nat" where
  "pinned_feeTier c tokenAddress feeTier =
     (if validatePancakeV3Pool c tokenAddress feeTier then Inr feeTier
      else Inl (Error (''No valid PancakeSwap V3 pool with '' @ fee_percent feeTier @
                  ''% fee tier found. Try using the auto-select option instead.'')))"

definition HONEYPOT_SUSPECTED :: js_error where
  "HONEYPOT_SUSPECTED = Error (''This token appears to be a potential honeypot. '' @
                               ''Transaction aborted for your safety.'')"

text \<open>The text of a balance in a message: \<^verbatim>\<open>web3.utils.fromWei(balance, 'ether')\<close>.\<close>

definition ether_text :: "nat \<Rightarrow> string" where
  "ether_text balance = (case fromWei (show_nat balance) ''ether'' of Inr t \<Rightarrow> t | Inl e \<Rightarrow> [])"

text \<open>
  \<^verbatim>\<open>buyToken\<close> from the balance read to the minimum output: every step that can raise,
  in the order of the source. The log lines format values that cannot make them raise.
\<close>

definition buyToken_order ::
  "chain \<Rightarrow> address \<Rightarrow> string \<Rightarrow> string \<Rightarrow> double \<Rightarrow> js_error + order" where
  "buyToken_order c walletAddress tokenAddress bnbAmount slippagePercent =
     and_then (getBalance c walletAddress) (\<lambda>bnbBalance.
     and_then (case toWei bnbAmount ''ether'' of
                 Inr wei \<Rightarrow> Inr wei
               | Inl error \<Rightarrow> Inl (Error (''Invalid BNB amount: '' @ bnbAmount @
                                       ''. Please provide a valid number.''))) (\<lambda>bnbAmountWei.
     and_then (toBN bnbAmountWei) (\<lambda>spend.
     if int bnbBalance < spend
     then Inl (Error (''Insufficient BNB balance. You have '' @ ether_text bnbBalance @
                 '' BNB but trying to spend '' @ bnbAmount @ '' BNB''))
     else
     and_then (getTokenInfo c tokenAddress) (\<lambda>tokenInfo.
     and_then (select_feeTier c tokenAddress (findBestFeeTier c WBNB_ADDRESS tokenAddress)) (\<lambda>feeTier.
     if checkForHoneypot c tokenAddress then Inl HONEYPOT_SUSPECTED
     else
     and_then (encodePath [WBNB_ADDRESS, tokenAddress] [feeTier]) (\<lambda>encoded.
     and_then (buyToken_quote c tokenAddress tokenInfo feeTier encoded bnbAmountWei) (\<lambda>quote.
       Inr \<lparr>order_path = encoded, order_amountIn = bnbAmountWei,
            order_amountOutMin = amountOutMin_safe (fst quote) slippagePercent\<rparr>)))))))"

text \<open>\<^verbatim>\<open>buyTokenWithFeeTier\<close>, the same stretch. The conversion to wei is not wrapped here.\<close>

definition buyTokenWithFeeTier_order ::
  "chain \<Rightarrow> address \<Rightarrow> string \<Rightarrow> string \<Rightarrow> double \<Rightarrow> nat \<Rightarrow> js_error + order" where
  "buyTokenWithFeeTier_order c walletAddress tokenAddress bnbAmount slippagePercent specificFeeTier =
     and_then (getBalance c walletAddress) (\<lambda>bnbBalance.
     and_then (toWei bnbAmount ''ether'') (\<lambda>bnbAmountWei.
     and_then (toBN bnbAmountWei) (\<lambda>spend.
     if int bnbBalance < spend
     then Inl (Error (''Insufficient BNB balance. You have '' @ ether_text bnbBalance @
                 '' BNB but trying to spend '' @ bnbAmount @ '' BNB''))
     else
     and_then (getTokenInfo c tokenAddress) (\<lambda>tokenInfo.
     and_then (pinned_feeTier c tokenAddress specificFeeTier) (\<lambda>feeTier.
     if checkForHoneypot c tokenAddress then Inl HONEYPOT_SUSPECTED
     else
     and_then (encodePath [WBNB_ADDRESS, tokenAddress] [feeTier]) (\<lambda>encoded.
     and_then (buyTokenWithFeeTier_quote c tokenAddress tokenInfo feeTier encoded bnbAmountWei) (\<lambda>quote.
     and_then (amountOutMin_direct (fst quote) slippagePercent) (\<lambda>amountOutMin.
       Inr \<lparr>order_path = encoded, order_amountIn = bnbAmountWei,
            order_amountOutMin = amountOutMin\<rparr>))))))))"

text \<open>The gas limit \<^verbatim>\<open>Math.floor(estimatedGas * 1.1)\<close>.\<close>

definition gas_limit :: "nat \<Rightarrow> int" where
  "gas_limit estimatedGas = Math_floor (number_mul (number (int estimatedGas) 1) (number 11 10))"

text \<open>
  The swap itself, shared by the four entry points from the gas price read on: the
  parameters, the encoding, the gas estimate with its default, and the transaction.
  \<open>value\<close> is the BNB sent along, for a buy. On success the key is taken off the wallet.
\<close>

definition send_swap ::
  "chain \<Rightarrow> engine \<Rightarrow> address \<Rightarrow> order \<Rightarrow> string option \<Rightarrow> nat \<Rightarrow> (js_error + string) \<times> engine" where
  "send_swap c st walletAddress ord val nonce =
     (case getGasPrice c of
        Inl error \<Rightarrow> (Inl error, st)
      | Inr gasPrice \<Rightarrow>
          (case encodeABI c \<lparr>sp_path = order_path ord, sp_recipient = walletAddress,
                             sp_deadline = clock c + 60 * 20, sp_amountIn = order_amountIn ord,
                             sp_amountOutMinimum = order_amountOutMin ord\<rparr> of
             Inl error \<Rightarrow> (Inl error, st)
           | Inr swapData \<Rightarrow>
               (case sendTransaction c
                       \<lparr>tx_from = walletAddress, tx_to = PANCAKESWAP_ROUTER_ADDRESS,
                        tx_data = swapData, tx_value = val,
                        tx_gas = gas_limit
                          (case estimateGas c \<lparr>sp_path = order_path ord, sp_recipient = walletAddress,
                                  sp_deadline = clock c + 60 * 20, sp_amountIn = order_amountIn ord,
                                  sp_amountOutMinimum = order_amountOutMin ord\<rparr> walletAddress val of
                             Inr estimatedGas \<Rightarrow> estimatedGas
                           | Inl error \<Rightarrow> 500000),
                        tx_gasPrice = gasPrice, tx_nonce = nonce\<rparr> of
                  Inl error \<Rightarrow>
                    (Inl error,
                     st\<lparr>submitted := submitted st @
                        [SentTransaction
                           \<lparr>tx_from = walletAddress, tx_to = PANCAKESWAP_ROUTER_ADDRESS,
                            tx_data = swapData, tx_value = val,
                            tx_gas = gas_limit
                              (case estimateGas c \<lparr>sp_path = order_path ord, sp_recipient = walletAddress,
                                      sp_deadline = clock c + 60 * 20, sp_amountIn = order_amountIn ord,
                                      sp_amountOutMinimum = order_amountOutMin ord\<rparr> walletAddress val of
                                 Inr estimatedGas \<Rightarrow> estimatedGas
                               | Inl error \<Rightarrow> 500000),
                            tx_gasPrice = gasPrice, tx_nonce = nonce\<rparr>]\<rparr>)
                | Inr transactionHash \<Rightarrow>
                    (Inr transactionHash,
                     st\<lparr>submitted := submitted st @
                        [SentTransaction
                           \<lparr>tx_from = walletAddress, tx_to = PANCAKESWAP_ROUTER_ADDRESS,
                            tx_data = swapData, tx_value = val,
                            tx_gas = gas_limit
                              (case estimateGas c \<lparr>sp_path = order_path ord, sp_recipient = walletAddress,
                                      sp_deadline = clock c + 60 * 20, sp_amountIn = order_amountIn ord,
                                      sp_amountOutMinimum = order_amountOutMin ord\<rparr> walletAddress val of
                                 Inr estimatedGas \<Rightarrow> estimatedGas
                               | Inl error \<Rightarrow> 500000),
                            tx_gasPrice = gasPrice, tx_nonce = nonce\<rparr>],
                        wallet := removeAll walletAddress (wallet st)\<rparr>))))"

text \<open>A buy from the nonce on: the nonce is issued, then the swap is sent with the BNB.\<close>

definition submit_buy :: "chain \<Rightarrow> engine \<Rightarrow> address \<Rightarrow> order \<Rightarrow> (js_error + string) \<times> engine" where
  "submit_buy c st walletAddress ord =
     (case getNextNonce (getTransactionCount c walletAddress) (getTransactionCount c walletAddress)
             walletAddress (nonceCache st) of
        (Inl error, cache) \<Rightarrow> (Inl error, st\<lparr>nonceCache := cache\<rparr>)
      | (Inr nonce, cache) \<Rightarrow>
          send_swap c (st\<lparr>nonceCache := cache\<rparr>) walletAddress ord (Some (order_amountIn ord)) nonce)"

text \<open>
  The approval block of the two sell entry points. \<open>tokenContract\<close> is what reading the
  identifier gives. Whatever raises inside the block is caught and raised again as an
  approval failure. The result is the nonce for the swap: one more after an approval.
\<close>

definition approval_failed :: "js_error \<Rightarrow> js_error" where
  "approval_failed error =
     Error (''Token approval failed: '' @ message error @
            ''. This token may have transfer restrictions or be a honeypot.'')"

definition MAX_APPROVAL :: int where
  "MAX_APPROVAL = BN_pow 2 256 - 1"

definition ensure_allowance ::
  "chain \<Rightarrow> engine \<Rightarrow> js_error + address \<Rightarrow> address \<Rightarrow> string \<Rightarrow> nat \<Rightarrow> (js_error + nat) \<times> engine" where
  "ensure_allowance c st tokenContract walletAddress tokenAmountInUnits nonce =
     (case and_then tokenContract (\<lambda>token.
           and_then (allowance c token walletAddress PANCAKESWAP_ROUTER_ADDRESS) (\<lambda>allowed.
           and_then (toBN tokenAmountInUnits) (\<lambda>amount.
             if int allowed < amount
             then and_then (getGasPrice c) (\<lambda>gasPrice.
                    Inr (Some \<lparr>ap_token = token, ap_spender = PANCAKESWAP_ROUTER_ADDRESS,
                              ap_amount = MAX_APPROVAL, ap_from = walletAddress, ap_gas = 200000,
                              ap_gasPrice = gasPrice, ap_nonce = nonce\<rparr>))
             else Inr None))) of
        Inl error \<Rightarrow> (Inl (approval_failed error), st)
      | Inr None \<Rightarrow> (Inr nonce, st)
      | Inr (Some request) \<Rightarrow>
          (case approve c request of
             Inl error \<Rightarrow>
               (Inl (approval_failed error), st\<lparr>submitted := submitted st @ [SentApproval request]\<rparr>)
           | Inr approveTx \<Rightarrow>
               (Inr (nonce + 1), st\<lparr>submitted := submitted st @ [SentApproval request]\<rparr>)))"

text \<open>A sale from the nonce on: nonce, approval if needed, swap.\<close>

definition submit_sell ::
  "chain \<Rightarrow> engine \<Rightarrow> js_error + address \<Rightarrow> address \<Rightarrow> order \<Rightarrow> (js_error + string) \<times> engine" where
  "submit_sell c st tokenContract walletAddress ord =
     (case getNextNonce (getTransactionCount c walletAddress) (getTransactionCount c walletAddress)
             walletAddress (nonceCache st) of
        (Inl error, cache) \<Rightarrow> (Inl error, st\<lparr>nonceCache := cache\<rparr>)
      | (Inr nonce, cache) \<Rightarrow>
          (case ensure_allowance c (st\<lparr>nonceCache := cache\<rparr>) tokenContract walletAddress
                  (order_amountIn ord) nonce of
             (Inl error, st1) \<Rightarrow> (Inl error, st1)
           | (Inr nonce1, st1) \<Rightarrow> send_swap c st1 walletAddress ord None nonce1))"

text \<open>The text of a token balance in a message.\<close>

definition insufficient_tokens :: "nat \<Rightarrow> token_info \<Rightarrow> string \<Rightarrow> js_error" where
  "insufficient_tokens tokenBalance tokenInfo tokenAmount =
     Error (''Insufficient token balance. You have '' @
            fromTokenUnits (show_nat tokenBalance) (ti_decimals tokenInfo) @ '' '' @
            ti_symbol tokenInfo @ '' but trying to sell '' @ tokenAmount @ '' '' @
            ti_symbol tokenInfo)"

text \<open>
  \<^verbatim>\<open>sellToken\<close> from the token information to the minimum output. The balance check
  reads \<^verbatim>\<open>tokenContract\<close>, in the scope of \<^verbatim>\<open>sellToken\<close>. There is no call of
  \<^verbatim>\<open>checkForHoneypot\<close> in this function.
\<close>

definition sellToken_order ::
  "chain \<Rightarrow> address \<Rightarrow> string \<Rightarrow> string \<Rightarrow> double \<Rightarrow> js_error + order" where
  "sellToken_order c walletAddress tokenAddress tokenAmount slippagePercent =
     and_then (getTokenInfo c tokenAddress) (\<lambda>tokenInfo.
     and_then (case toTokenUnits tokenAmount (ti_decimals tokenInfo) of
                 Inr units \<Rightarrow> Inr units
               | Inl error \<Rightarrow> Inl (Error (''Invalid token amount: '' @ tokenAmount @
                                       ''. Please provide a valid number.''))) (\<lambda>tokenAmountInUnits.
     and_then (reference sellToken_scope ''tokenContract'' tokenAddress) (\<lambda>tokenContract.
     and_then (balanceOf c tokenContract walletAddress) (\<lambda>tokenBalance.
     and_then (toBN tokenAmountInUnits) (\<lambda>amount.
     if int tokenBalance < amount
     then Inl (insufficient_tokens tokenBalance tokenInfo tokenAmount)
     else
     and_then (select_feeTier c tokenAddress (findBestFeeTier c tokenAddress WBNB_ADDRESS)) (\<lambda>feeTier.
     and_then (encodePath [tokenAddress, WBNB_ADDRESS] [feeTier]) (\<lambda>encoded.
     and_then (sellToken_quote c tokenAddress tokenInfo feeTier encoded tokenAmountInUnits) (\<lambda>quote.
       Inr \<lparr>order_path = encoded, order_amountIn = tokenAmountInUnits,
            order_amountOutMin = amountOutMin_safe (fst quote) slippagePercent\<rparr>))))))))"

text \<open>
  \<^verbatim>\<open>sellTokenWithFeeTier\<close>, the same stretch: \<^verbatim>\<open>tokenContract\<close> is declared here, the
  conversion of the amount is not wrapped, and there is no call of \<^verbatim>\<open>checkForHoneypot\<close>
  either.
\<close>

definition sellTokenWithFeeTier_order ::
  "chain \<Rightarrow> address \<Rightarrow> string \<Rightarrow> string \<Rightarrow> double \<Rightarrow> nat \<Rightarrow> js_error + order" where
  "sellTokenWithFeeTier_order c walletAddress tokenAddress tokenAmount slippagePercent specificFeeTier =
     and_then (getTokenInfo c tokenAddress) (\<lambda>tokenInfo.
     and_then (toTokenUnits tokenAmount (ti_decimals tokenInfo)) (\<lambda>tokenAmountInUnits.
     and_then (reference sellTokenWithFeeTier_scope ''tokenContract'' tokenAddress) (\<lambda>tokenContract.
     and_then (balanceOf c tokenContract walletAddress) (\<lambda>tokenBalance.
     and_then (toBN tokenAmountInUnits) (\<lambda>amount.
     if int tokenBalance < amount
     then Inl (insufficient_tokens tokenBalance tokenInfo tokenAmount)
     else
     and_then (pinned_feeTier c tokenAddress specificFeeTier) (\<lambda>feeTier.
     and_then (encodePath [tokenAddress, WBNB_ADDRESS] [feeTier]) (\<lambda>encoded.
     and_then (sellTokenWithFeeTier_quote c tokenAddress tokenInfo feeTier encoded tokenAmountInUnits) (\<lambda>quote.
     and_then (amountOutMin_direct (fst quote) slippagePercent) (\<lambda>amountOutMin.
       Inr \<lparr>order_path = encoded, order_amountIn = tokenAmountInUnits,
            order_amountOutMin = amountOutMin\<rparr>)))))))))"

text \<open>
  The outer \<^verbatim>\<open>catch\<close> of every entry point: the key is derived again and taken off the
  wallet, errors of this cleanup are ignored, and the error is raised again.
\<close>

definition cleanup :: "chain \<Rightarrow> engine \<Rightarrow> string \<Rightarrow> engine" where
  "cleanup c st privateKey =
     (case privateKeyToAccount c privateKey of
        Inr walletAddress \<Rightarrow> st\<lparr>wallet := removeAll walletAddress (wallet st)\<rparr>
      | Inl e \<Rightarrow> st)"

definition or_cleanup :: "chain \<Rightarrow> string \<Rightarrow> (js_error + string) \<times> engine \<Rightarrow> (js_error + string) \<times> engine" where
  "or_cleanup c privateKey outcome =
     (case outcome of
        (Inl error, st) \<Rightarrow> (Inl error, cleanup c st privateKey)
      | (Inr transactionHash, st) \<Rightarrow> (Inr transactionHash, st))"

text \<open>
  The entry points: the key is turned into an account and added to the wallet, the order
  is worked out, and the trade is submitted. The result is the transaction hash or the
  error, with the state afterwards.
\<close>

definition buyToken ::
  "chain \<Rightarrow> engine \<Rightarrow> string \<Rightarrow> string \<Rightarrow> string \<Rightarrow> double \<Rightarrow> (js_error + string) \<times> engine" where
  "buyToken c st privateKey tokenAddress bnbAmount slippagePercent =
     or_cleanup c privateKey
       (case privateKeyToAccount c privateKey of
          Inl error \<Rightarrow> (Inl error, st)
        | Inr walletAddress \<Rightarrow>
            (case buyToken_order c walletAddress tokenAddress bnbAmount slippagePercent of
               Inl error \<Rightarrow> (Inl error, st\<lparr>wallet := List.insert walletAddress (wallet st)\<rparr>)
             | Inr ord \<Rightarrow>
                 submit_buy c (st\<lparr>wallet := List.insert walletAddress (wallet st)\<rparr>) walletAddress ord))"

definition buyTokenWithFeeTier ::
  "chain \<Rightarrow> engine \<Rightarrow> string \<Rightarrow> string \<Rightarrow> string \<Rightarrow> double \<Rightarrow> nat \<Rightarrow> (js_error + string) \<times> engine" where
  "buyTokenWithFeeTier c st privateKey tokenAddress bnbAmount slippagePercent specificFeeTier =
     or_cleanup c privateKey
       (case privateKeyToAccount c privateKey of
          Inl error \<Rightarrow> (Inl error, st)
        | Inr walletAddress \<Rightarrow>
            (case buyTokenWithFeeTier_order c walletAddress tokenAddress bnbAmount slippagePercent
                    specificFeeTier of
               Inl error \<Rightarrow> (Inl error, st\<lparr>wallet := List.insert walletAddress (wallet st)\<rparr>)
             | Inr ord \<Rightarrow>
                 submit_buy c (st\<lparr>wallet := List.insert walletAddress (wallet st)\<rparr>) walletAddress ord))"

definition sellToken ::
  "chain \<Rightarrow> engine \<Rightarrow> string \<Rightarrow> string \<Rightarrow> string \<Rightarrow> double \<Rightarrow> (js_error + string) \<times> engine" where
  "sellToken c st privateKey tokenAddress tokenAmount slippagePercent =
     or_cleanup c privateKey
       (case privateKeyToAccount c privateKey of
          Inl error \<Rightarrow> (Inl error, st)
        | Inr walletAddress \<Rightarrow>
            (case sellToken_order c walletAddress tokenAddress tokenAmount slippagePercent of
               Inl error \<Rightarrow> (Inl error, st\<lparr>wallet := List.insert walletAddress (wallet st)\<rparr>)
             | Inr ord \<Rightarrow>
                 submit_sell c (st\<lparr>wallet := List.insert walletAddress (wallet st)\<rparr>)
                   (reference sellToken_scope ''tokenContract'' tokenAddress) walletAddress ord))"

definition sellTokenWithFeeTier ::
  "chain \<Rightarrow> engine \<Rightarrow> string \<Rightarrow> string \<Rightarrow> string \<Rightarrow> double \<Rightarrow> nat \<Rightarrow> (js_error + string) \<times> engine" where
  "sellTokenWithFeeTier c st privateKey tokenAddress tokenAmount slippagePercent specificFeeTier =
     or_cleanup c privateKey
       (case privateKeyToAccount c privateKey of
          Inl error \<Rightarrow> (Inl error, st)
        | Inr walletAddress \<Rightarrow>
            (case sellTokenWithFeeTier_order c walletAddress tokenAddress tokenAmount slippagePercent
                    specificFeeTier of
               Inl error \<Rightarrow> (Inl error, st\<lparr>wallet := List.insert walletAddress (wallet st)\<rparr>)
             | Inr ord \<Rightarrow>
                 submit_sell c (st\<lparr>wallet := List.insert walletAddress (wallet st)\<rparr>)
                   (reference sellTokenWithFeeTier_scope ''tokenContract'' tokenAddress)
                   walletAddress ord))"

text \<open>The state of a fresh process.\<close>

definition fresh_engine :: engine where
  "fresh_engine = \<lparr>nonceCache = Map.empty, wallet = [], submitted = []\<rparr>"

section \<open>Worlds for the examples\<close>

text \<open>A node that answers nothing: every read rejects. The examples below start from it.\<close>

definition offline_chain :: chain where
  "offline_chain =
     \<lparr>privateKeyToAccount = (\<lambda>k. Inl (Error ''offline'')),
      isAddress = (\<lambda>s. False),
      toChecksumAddress = (\<lambda>s. Inl (Error ''offline'')),
      getBalance = (\<lambda>a. Inl (Error ''offline'')),
      getCode = (\<lambda>a. Inl (Error ''offline'')),
      getTransactionCount = (\<lambda>a. Inl (Error ''offline'')),
      getGasPrice = Inl (Error ''offline''),
      sendTransaction = (\<lambda>t. Inl (Error ''offline'')),
      call_symbol = (\<lambda>a. Inl (Error ''offline'')),
      call_name = (\<lambda>a. Inl (Error ''offline'')),
      call_decimals = (\<lambda>a. Inl (Error ''offline'')),
      totalSupply = (\<lambda>a. Inl (Error ''offline'')),
      balanceOf = (\<lambda>t a. Inl (Error ''offline'')),
      allowance = (\<lambda>t a s. Inl (Error ''offline'')),
      getPool = (\<lambda>a b f. Inl (Error ''offline'')),
      liquidity = (\<lambda>p. Inl (Error ''offline'')),
      slot0 = (\<lambda>p. Inl (Error ''offline'')),
      quoteExactInput = (\<lambda>p a. Inl (Error ''offline'')),
      encodeABI = (\<lambda>p. Inl (Error ''offline'')),
      estimateGas = (\<lambda>p a v. Inl (Error ''offline'')),
      approve = (\<lambda>a. Inl (Error ''offline'')),
      clock = 0\<rparr>"

text \<open>
  The token of the examples (the BSC peg of UNI), given in its checksum form, and the
  pool addresses the example factory hands out, one per fee tier.
\<close>

definition UNI_ADDRESS :: address where
  "UNI_ADDRESS = ''0xBf5140A22578168FD562DCcF235E5D43A02ce9B1''"

definition pool_at :: "nat \<Rightarrow> address" where
  "pool_at fee = ''0x00000000000000000000000000000000000'' @ show_nat (10000 + fee)"


text \<open>
  A world in which UNI trades against WBNB in one pool, at the 0.25% tier, and every
  read is answered. Both addresses are in checksum form already, so
  \<^verbatim>\<open>toChecksumAddress\<close> hands them back unchanged.
\<close>

definition market_chain :: chain where
  "market_chain = offline_chain
     \<lparr>privateKeyToAccount := (\<lambda>k. Inr ''0x90F8bf6A479f320ead074411a4B0e7944Ea8c9C1''),
      isAddress := (\<lambda>s. s = UNI_ADDRESS \<or> s = WBNB_ADDRESS),
      toChecksumAddress := (\<lambda>s. if s = UNI_ADDRESS \<or> s = WBNB_ADDRESS then Inr s
                                  else Inl (Error ''Given address is not a valid Ethereum address.'')),
      getBalance := (\<lambda>a. Inr 2000000000000000000),
      getCode := (\<lambda>a. Inr ''0x6080604052''),
      getTransactionCount := (\<lambda>a. Inr 7),
      getGasPrice := Inr 3000000000,
      sendTransaction := (\<lambda>t. Inr ''0xfeed''),
      call_symbol := (\<lambda>a. Inr ''UNI''),
      call_name := (\<lambda>a. Inr ''Uniswap''),
      call_decimals := (\<lambda>a. Inr 18),
      totalSupply := (\<lambda>a. Inr 1000000000000000000000000),
      balanceOf := (\<lambda>t a. Inr 5000000000000000000),
      allowance := (\<lambda>t a s. Inr 9000000000000000000),
      getPool := (\<lambda>a b f. if f = 2500 then Inr (pool_at 2500) else Inr ZERO_ADDRESS),
      liquidity := (\<lambda>p. Inr 5000000000000),
      slot0 := (\<lambda>p. Inr 79228162514264337593543950336),
      quoteExactInput := (\<lambda>p a. Inr (QuoteObject (Some 1000000))),
      encodeABI := (\<lambda>p. Inr ''0xb858183f''),
      estimateGas := (\<lambda>p a v. Inr 200000),
      approve := (\<lambda>a. Inr ''0xa11ce''),
      clock := 1700000000\<rparr>"

text \<open>
  The market world at a bad moment: the quoter call reverts and the \<^verbatim>\<open>slot0\<close> read of the
  pool times out.
\<close>

definition stalled_chain :: chain where
  "stalled_chain = market_chain
     \<lparr>quoteExactInput := (\<lambda>p a. Inl (Error ''execution reverted'')),
      slot0 := (\<lambda>p. Inl (Error ''timeout''))\<rparr>"

text \<open>
  The market world with a token whose deployed code is longer than the threshold of the
  risk heuristic.
\<close>

definition flagged_chain :: chain where
  "flagged_chain = market_chain
     \<lparr>getCode := (\<lambda>a. Inr (''0x'' @ replicate 50000 CHR ''6''))\<rparr>"


text \<open>The market world with the quoter call reverting: the pool reads are answered.\<close>

definition quoter_down_chain :: chain where
  "quoter_down_chain = market_chain
     \<lparr>quoteExactInput := (\<lambda>p a. Inl (Error ''execution reverted''))\<rparr>"

text \<open>The same with a pool that is not initialised: \<open>sqrtPriceX96\<close> reads as 0.\<close>

definition unpriced_chain :: chain where
  "unpriced_chain = quoter_down_chain\<lparr>slot0 := (\<lambda>p. Inr 0)\<rparr>"

section \<open>Evaluation\<close>

text \<open>
  The recursive equations below are unfolded only where a proof names them: each
  rewrites a call into an \<open>if\<close> around another call.
\<close>

declare show_nat.simps [simp del]
declare show_hex.simps [simp del]
declare bitlen.simps [simp del]
declare declen.simps [simp del]
declare odd_part.simps [simp del]
declare pad_fractional.simps [simp del]
declare pad_amount.simps [simp del]

lemma replicate_numeral: "replicate (numeral k) x = x # replicate (pred_numeral k) x"
  by (simp add: numeral_eq_Suc)

lemma find_digits_numeral:
  "find_digits (numeral v) x n0 k =
     (case k_digits x n0 k of Some d \<Rightarrow> d | None \<Rightarrow> find_digits (pred_numeral v) x n0 (Suc k))"
  by (simp add: numeral_eq_Suc)

lemmas string_simps = before_dot_def after_dot_def strip_leading_zeros_def
  strip_trailing_zeros_def show_nat.simps show_hex.simps show_int_def digit_char_def padStart_def
  hex_digit_def is_digit_def toLowerCase_def lower_char_def replicate_numeral

lemmas library_simps = toBN_def trim_def is_space_def stripHexPrefix_def all_digits_def
  all_hex_def all_hex_letters_def signed_digits_def signed_value_def unit_zeros_def
  decimal_chars_def toWei_def fromWei_def

lemmas unit_simps = toTokenUnits_def fromTokenUnits_def standard_decimals_def getEtherUnit_def
  toTokenUnits_manual_def pad_fractional.simps pad_amount.simps string_simps library_simps Let_def

lemmas number_simps = number_def number_mul_def number_sub_def nearest_double_def numerator_def
  denominator_def Math_floor_def nearest_positive_def round_quotient_def round_to_53_def
  negate_def bitlen.simps odd_part.simps

lemmas toString_simps = number_toString_def positive_toString_def shortest_digits_def
  decimal_exponent_def layout_digits_def k_digits_def digits_at_def pick_digits_def reads_back_def
  digit_char_def find_digits_numeral replicate_numeral declen.simps show_nat.simps


section \<open>Printing a number and reading it back\<close>

lemma hex_digit_digit_char: "d < 10 \<Longrightarrow> hex_digit (digit_char d) = Some d"
proof -
  assume "d < 10"
  then have "d \<in> {0, 1, 2, 3, 4, 5, 6, 7, 8, 9}" by auto
  then show ?thesis by (auto simp: hex_digit_def digit_char_def)
qed

lemma is_digit_digit_char: "d < 10 \<Longrightarrow> is_digit (digit_char d)"
  by (simp add: is_digit_def hex_digit_digit_char)

lemma digits_value_append:
  "digits_value b acc (xs @ ys) = digits_value b (digits_value b acc xs) ys"
  by (induction xs arbitrary: acc) simp_all

lemma show_nat_digits: "list_all is_digit (show_nat n) \<and> show_nat n \<noteq> []"
proof (induction n rule: show_nat.induct)
  case (1 n)
  show ?case
  proof (cases "n < 10")
    case True
    then show ?thesis by (subst show_nat.simps, subst show_nat.simps) (simp add: is_digit_digit_char)
  next
    case False
    with 1 have "list_all is_digit (show_nat (n div 10))" by simp
    moreover have "is_digit (digit_char (n mod 10))" by (simp add: is_digit_digit_char)
    ultimately show ?thesis using False
      by (subst show_nat.simps, subst show_nat.simps) simp
  qed
qed

lemma digits_value_show_nat: "digits_value 10 0 (show_nat n) = n"
proof (induction n rule: show_nat.induct)
  case (1 n)
  show ?case
  proof (cases "n < 10")
    case True
    then show ?thesis by (subst show_nat.simps) (simp add: hex_digit_digit_char)
  next
    case False
    with 1 have IH: "digits_value 10 0 (show_nat (n div 10)) = n div 10" by simp
    have "digits_value 10 0 (show_nat n)
        = digits_value 10 (digits_value 10 0 (show_nat (n div 10))) [digit_char (n mod 10)]"
      using False by (subst show_nat.simps) (simp add: digits_value_append)
    also have "\<dots> = (n div 10) * 10 + n mod 10"
      using IH by (simp add: hex_digit_digit_char)
    finally show ?thesis by simp
  qed
qed


lemma is_digit_cases: "is_digit c \<Longrightarrow> c \<in> set ''0123456789''"
  by (auto simp: is_digit_def hex_digit_def split: option.splits if_splits)

lemma is_digit_lower: "is_digit c \<Longrightarrow> lower_char c = c"
proof -
  have "\<forall>d \<in> set ''0123456789''. lower_char d = d" by (simp add: lower_char_def)
  then show "is_digit c \<Longrightarrow> lower_char c = c" using is_digit_cases by blast
qed

lemma is_digit_not_space: "is_digit c \<Longrightarrow> \<not> is_space c"
proof -
  have "\<forall>d \<in> set ''0123456789''. \<not> is_space d" by (simp add: is_space_def)
  then show "is_digit c \<Longrightarrow> \<not> is_space c" using is_digit_cases by blast
qed

lemma digits_lower: "list_all is_digit s \<Longrightarrow> toLowerCase s = s"
  by (induction s) (simp_all add: toLowerCase_def is_digit_lower)

lemma digits_trim: "list_all is_digit s \<Longrightarrow> trim s = s"
proof (cases s)
  case Nil
  then show ?thesis by (simp add: trim_def)
next
  case (Cons c cs)
  assume d: "list_all is_digit s"
  with Cons have "\<not> is_space c" by (simp add: is_digit_not_space)
  with Cons have front: "dropWhile is_space s = s" by simp
  have "rev s \<noteq> []" using Cons by simp
  moreover have "list_all is_digit (rev s)" using d by (simp add: list_all_iff)
  ultimately have "\<not> is_space (hd (rev s))"
    by (cases "rev s") (simp_all add: is_digit_not_space)
  then have "dropWhile is_space (rev s) = rev s"
    using \<open>rev s \<noteq> []\<close> by (cases "rev s") simp_all
  with front show ?thesis by (simp add: trim_def)
qed

lemma digits_no_prefix:
  assumes "list_all is_digit s"
  shows "take 2 s \<noteq> ''0x''" and "take 3 s \<noteq> ''-0x''" and "take 1 s \<noteq> ''-''"
proof -
  have x: "\<not> is_digit CHR ''x''" and m: "\<not> is_digit CHR ''-''"
    by (simp_all add: is_digit_def hex_digit_def)
  show "take 2 s \<noteq> ''0x''"
  proof
    assume "take 2 s = ''0x''"
    then have "CHR ''x'' \<in> set (take 2 s)" by simp
    then have "CHR ''x'' \<in> set s" by (rule in_set_takeD)
    with assms x show False by (auto simp: list_all_iff)
  qed
  show "take 3 s \<noteq> ''-0x''"
  proof
    assume "take 3 s = ''-0x''"
    then have "CHR ''x'' \<in> set (take 3 s)" by simp
    then have "CHR ''x'' \<in> set s" by (rule in_set_takeD)
    with assms x show False by (auto simp: list_all_iff)
  qed
  show "take 1 s \<noteq> ''-''"
  proof
    assume "take 1 s = ''-''"
    then have "CHR ''-'' \<in> set (take 1 s)" by simp
    then have "CHR ''-'' \<in> set s" by (rule in_set_takeD)
    with assms m show False by (auto simp: list_all_iff)
  qed
qed

text \<open>
  On a plain string of decimal digits \<^verbatim>\<open>web3.utils.toBN\<close> gives the number the digits
  denote, and with a minus sign in front its negative.
\<close>

lemma toBN_digits:
  assumes "all_digits s"
  shows "toBN s = Inr (int (digits_value 10 0 s))"
proof -
  from assms have d: "list_all is_digit s" and ne: "s \<noteq> []" by (simp_all add: all_digits_def)
  have f: "trim (toLowerCase s) = s" using d by (simp add: digits_lower digits_trim)
  have nl: "\<not> all_hex_letters s"
    using d ne by (cases s) (simp_all add: all_hex_letters_def)
  have sd: "signed_digits s"
    using assms digits_no_prefix(3) [OF d] by (simp add: signed_digits_def)
  have sv: "signed_value s = int (digits_value 10 0 s)"
    using digits_no_prefix(3) [OF d] by (simp add: signed_value_def)
  show ?thesis
    using f nl sd sv ne digits_no_prefix [OF d]
    by (simp add: toBN_def stripHexPrefix_def Let_def)
qed

lemma toBN_minus_digits:
  assumes "all_digits s"
  shows "toBN (CHR ''-'' # s) = Inr (- int (digits_value 10 0 s))"
proof -
  from assms have d: "list_all is_digit s" and ne: "s \<noteq> []" by (simp_all add: all_digits_def)
  have l: "toLowerCase (CHR ''-'' # s) = CHR ''-'' # s"
    using digits_lower [OF d] by (simp add: toLowerCase_def lower_char_def)
  have "rev s \<noteq> []" using ne by simp
  moreover have "list_all is_digit (rev s)" using d by (simp add: list_all_iff)
  ultimately have "\<not> is_space (hd (rev s))"
    by (cases "rev s") (simp_all add: is_digit_not_space)
  then have "dropWhile is_space (rev s @ ''-'') = rev s @ ''-''"
    using \<open>rev s \<noteq> []\<close> by (cases "rev s") simp_all
  then have t: "trim (CHR ''-'' # s) = CHR ''-'' # s"
    by (simp add: trim_def is_space_def)
  have nl: "\<not> all_hex_letters s"
    using d ne by (cases s) (simp_all add: all_hex_letters_def)
  have sd: "signed_digits s"
    using assms digits_no_prefix(3) [OF d] by (simp add: signed_digits_def)
  have sv: "signed_value s = int (digits_value 10 0 s)"
    using digits_no_prefix(3) [OF d] by (simp add: signed_value_def)
  have p2: "take 2 (CHR ''-'' # s) \<noteq> ''0x''" by simp
  have p3: "take 3 (CHR ''-'' # s) \<noteq> ''-0x''"
  proof
    assume "take 3 (CHR ''-'' # s) = ''-0x''"
    then have "take 2 s = ''0x''" by (simp add: numeral_3_eq_3 numeral_2_eq_2)
    with digits_no_prefix(1) [OF d] show False by simp
  qed
  show ?thesis
    using l t nl sd sv ne p2 p3 digits_no_prefix [OF d]
    by (simp add: toBN_def stripHexPrefix_def Let_def)
qed

lemma toBN_show_nat: "toBN (show_nat n) = Inr (int n)"
  using toBN_digits [of "show_nat n"] show_nat_digits [of n]
  by (simp add: all_digits_def digits_value_show_nat)

lemma toBN_show_int: "toBN (show_int i) = Inr i"
proof (cases "i < 0")
  case True
  then show ?thesis
    using toBN_minus_digits [of "show_nat (nat (- i))"] show_nat_digits [of "nat (- i)"]
    by (simp add: show_int_def all_digits_def digits_value_show_nat)
next
  case False
  then show ?thesis using toBN_show_nat [of "nat i"] by (simp add: show_int_def)
qed

lemma no_point_in_digits: "list_all is_digit s \<Longrightarrow> \<not> str_includes s ''.''"
proof (induction s)
  case Nil
  show ?case by simp
next
  case (Cons c cs)
  have "\<not> is_digit CHR ''.''" by (simp add: is_digit_def hex_digit_def)
  with Cons show ?case by auto
qed

lemma safeBN_show_nat: "safeBN (StringValue (show_nat n)) = int n"
  using show_nat_digits [of n]
  by (simp add: safeBN_text_def digits_trim no_point_in_digits toBN_show_nat)

lemma safeBN_show_int: "safeBN (StringValue (show_int i)) = i"
proof (cases "i < 0")
  case False
  then show ?thesis using safeBN_show_nat [of "nat i"] by (simp add: show_int_def)
next
  case True
  let ?s = "show_nat (nat (- i))"
  have d: "list_all is_digit ?s" and ne: "?s \<noteq> []" using show_nat_digits by simp_all
  have "rev ?s \<noteq> []" using ne by simp
  moreover have "list_all is_digit (rev ?s)" using d by (simp add: list_all_iff)
  ultimately have "\<not> is_space (hd (rev ?s))"
    by (cases "rev ?s") (simp_all add: is_digit_not_space)
  then have "dropWhile is_space (rev ?s @ ''-'') = rev ?s @ ''-''"
    using \<open>rev ?s \<noteq> []\<close> by (cases "rev ?s") simp_all
  then have t: "trim (CHR ''-'' # ?s) = CHR ''-'' # ?s"
    by (simp add: trim_def is_space_def)
  have np: "\<not> str_includes (CHR ''-'' # ?s) ''.''"
    using no_point_in_digits [OF d] by simp
  show ?thesis
    using True t np toBN_show_int [of i] by (simp add: safeBN_text_def show_int_def)
qed

section \<open>The example worlds\<close>



section \<open>Nonce sequencing: the cache never goes back\<close>

lemma getNextNonce_cache_le: "cache_le c (snd (getNextNonce r1 r2 a c))"
  by (auto simp: getNextNonce_def cache_le_def Let_def split: sum.splits option.splits)

lemma cache_le_refl: "cache_le c c"
  by (simp add: cache_le_def)

lemma cache_le_trans: "cache_le a b \<Longrightarrow> cache_le b c \<Longrightarrow> cache_le a c"
  unfolding cache_le_def by (meson le_trans)

lemma nonce_calls_cache_le: "cache_le c (snd (nonce_calls cs c))"
proof (induction cs arbitrary: c)
  case Nil
  show ?case by (simp add: cache_le_refl)
next
  case (Cons x cs)
  obtain a r1 r2 where x: "x = (a, r1, r2)" by (cases x)
  let ?c1 = "snd (getNextNonce r1 r2 a c)"
  have "cache_le c ?c1" by (rule getNextNonce_cache_le)
  moreover have "cache_le ?c1 (snd (nonce_calls cs ?c1))" by (rule Cons.IH)
  ultimately have "cache_le c (snd (nonce_calls cs ?c1))" by (rule cache_le_trans)
  then show ?case using x by (simp add: split_beta)
qed

text \<open>
  When the read inside \<^verbatim>\<open>try\<close> is answered, the call returns the value it stores, and
  that value is above whatever was cached for the address before.
\<close>

lemma getNextNonce_answered:
  "\<exists>n. getNextNonce (Inr v) r2 a c = (Inr n, c(a \<mapsto> n)) \<and> (\<forall>k. c a = Some k \<longrightarrow> k < n)"
  by (auto simp: getNextNonce_def Let_def split: option.splits if_splits)

text \<open>
  A call whose first read raises hands back the second read as it is and leaves the
  cache alone: nothing ties the returned value to what was issued before.
\<close>

lemma getNextNonce_fallback:
  "getNextNonce (Inl e) r2 a c = (r2, c)"
  by (cases r2) (simp_all add: getNextNonce_def)

lemma returned_increasing:
  "first_reads_ok cs \<Longrightarrow>
     sorted_wrt (<) (returned_to a (fst (nonce_calls cs c))) \<and>
     (\<forall>k. c a = Some k \<longrightarrow> (\<forall>m \<in> set (returned_to a (fst (nonce_calls cs c))). k < m))"
proof (induction cs arbitrary: c)
  case Nil
  show ?case by simp
next
  case (Cons x cs)
  obtain a' r1 r2 where x: "x = (a', r1, r2)" by (cases x)
  from Cons.prems x obtain v where r1: "r1 = Inr v" and rest: "first_reads_ok cs"
    by (cases r1) (auto simp: first_reads_ok_def)
  obtain n where g: "getNextNonce (Inr v) r2 a' c = (Inr n, c(a' \<mapsto> n))"
    and gt: "\<forall>k. c a' = Some k \<longrightarrow> k < n"
    using getNextNonce_answered by blast
  let ?c1 = "c(a' \<mapsto> n)"
  let ?rest = "returned_to a (fst (nonce_calls cs ?c1))"
  have IH: "sorted_wrt (<) ?rest \<and> (\<forall>k. ?c1 a = Some k \<longrightarrow> (\<forall>m \<in> set ?rest. k < m))"
    by (rule Cons.IH [OF rest])
  have res: "returned_to a (fst (nonce_calls (x # cs) c)) = (if a' = a then n # ?rest else ?rest)"
    using x r1 g by (simp add: split_beta)
  show ?case
  proof (cases "a' = a")
    case True
    with IH have "\<forall>m \<in> set ?rest. n < m" by simp
    with IH gt True res show ?thesis by fastforce
  next
    case False
    with IH res show ?thesis by simp
  qed
qed

lemma all_calls_return:
  "first_reads_ok cs \<Longrightarrow> list_all (\<lambda>r. succeeded (snd r)) (fst (nonce_calls cs c))"
proof (induction cs arbitrary: c)
  case Nil
  show ?case by simp
next
  case (Cons x cs)
  obtain a' r1 r2 where x: "x = (a', r1, r2)" by (cases x)
  from Cons.prems x obtain v where r1: "r1 = Inr v" and rest: "first_reads_ok cs"
    by (cases r1) (auto simp: first_reads_ok_def)
  obtain n where g: "getNextNonce (Inr v) r2 a' c = (Inr n, c(a' \<mapsto> n))"
    using getNextNonce_answered by blast
  show ?case using x r1 g Cons.IH [OF rest] by (simp add: split_beta)
qed

text \<open>
  Claim C4, as amended. Over any run of sequential calls (for any mix of addresses) the
  cache entry of every address never decreases and is never dropped. When, in every call
  of the run, the pending-nonce read inside \<^verbatim>\<open>try\<close> is answered, with a fresh or a stale
  value, every call returns and the values returned for one address are strictly
  increasing, so no value is issued twice.
\<close>

theorem nonce_sequence_monotone:
  "cache_le c (snd (nonce_calls calls c)) \<and>
   (first_reads_ok calls \<longrightarrow>
      list_all (\<lambda>r. succeeded (snd r)) (fst (nonce_calls calls c)) \<and>
      sorted_wrt (<) (returned_to a (fst (nonce_calls calls c))))"
  using nonce_calls_cache_le [of c calls] all_calls_return [of calls c]
    returned_increasing [of calls a c]
  by simp

text \<open>
  A run for the claim as amended: the chain first answers 7, then twice the stale value
  3, with a call for another address in between. The three calls for the first address
  return 7, 8 and 9.
\<close>

theorem nonce_sequence_monotone_witness:
  "first_reads_ok
     [(''0xA1'', Inr 7, Inr 7), (''0xA1'', Inr 3, Inr 3), (''0xB2'', Inr 0, Inr 0), (''0xA1'', Inr 3, Inr 3)] \<and>
   cache_le Map.empty
     (snd (nonce_calls
       [(''0xA1'', Inr 7, Inr 7), (''0xA1'', Inr 3, Inr 3), (''0xB2'', Inr 0, Inr 0), (''0xA1'', Inr 3, Inr 3)]
       Map.empty)) \<and>
   sorted_wrt (<) (returned_to ''0xA1'' (fst (nonce_calls
       [(''0xA1'', Inr 7, Inr 7), (''0xA1'', Inr 3, Inr 3), (''0xB2'', Inr 0, Inr 0), (''0xA1'', Inr 3, Inr 3)]
       Map.empty))) \<and>
   returned_to ''0xA1'' (fst (nonce_calls
       [(''0xA1'', Inr 7, Inr 7), (''0xA1'', Inr 3, Inr 3), (''0xB2'', Inr 0, Inr 0), (''0xA1'', Inr 3, Inr 3)]
       Map.empty)) = [7, 8, 9]"
  using nonce_sequence_monotone
    [of Map.empty
      "[(''0xA1'', Inr 7, Inr 7), (''0xA1'', Inr 3, Inr 3), (''0xB2'', Inr 0, Inr 0), (''0xA1'', Inr 3, Inr 3)]"
      "''0xA1''"]
  by (simp add: first_reads_ok_def getNextNonce_def)

text \<open>
  The claim as stated fails: two sequential calls for one address, both returning. The
  first issues 5. In the second the read inside \<^verbatim>\<open>try\<close> raises and the read inside
  \<^verbatim>\<open>catch\<close> answers 5 (the chain has not yet counted the transaction sent with nonce 5),
  so 5 is returned again.
\<close>

theorem nonce_repeat_counterexample:
  "list_all (\<lambda>r. succeeded (snd r))
     (fst (nonce_calls [(''0xA1'', Inr 5, Inr 5), (''0xA1'', Inl (Error ''timeout''), Inr 5)] Map.empty)) \<and>
   returned_to ''0xA1''
     (fst (nonce_calls [(''0xA1'', Inr 5, Inr 5), (''0xA1'', Inl (Error ''timeout''), Inr 5)] Map.empty))
     = [5, 5] \<and>
   \<not> sorted_wrt (<) (returned_to ''0xA1''
     (fst (nonce_calls [(''0xA1'', Inr 5, Inr 5), (''0xA1'', Inl (Error ''timeout''), Inr 5)] Map.empty)))"
  by (simp add: getNextNonce_def)


section \<open>Fee tier selection: the tier chosen\<close>











section \<open>Pool validation and the pair it asks about\<close>

lemma sortedTokens_market:
  "sortedTokens market_chain UNI_ADDRESS = Inr (UNI_ADDRESS, WBNB_ADDRESS)"
  by (simp add: sortedTokens_def and_then_def market_chain_def offline_chain_def
      UNI_ADDRESS_def WBNB_ADDRESS_def)






text \<open>What validation does decide, with the order of the pair written out.\<close>

lemma validatePancakeV3Pool_decides:
  "(\<forall>e. toChecksumAddress c tokenAddress = Inl e \<longrightarrow> \<not> validatePancakeV3Pool c tokenAddress feeTier) \<and>
   (\<forall>e. toChecksumAddress c WBNB_ADDRESS = Inl e \<longrightarrow> \<not> validatePancakeV3Pool c tokenAddress feeTier) \<and>
   (\<forall>a b. toChecksumAddress c tokenAddress = Inr a \<and> toChecksumAddress c WBNB_ADDRESS = Inr b \<longrightarrow>
      validatePancakeV3Pool c tokenAddress feeTier =
        (\<exists>poolAddress liq sqrtPriceX96.
           getPool c (if str_lt a b then tokenAddress else WBNB_ADDRESS)
                     (if str_lt a b then WBNB_ADDRESS else tokenAddress) feeTier = Inr poolAddress \<and>
           poolAddress \<noteq> ZERO_ADDRESS \<and>
           liquidity c poolAddress = Inr liq \<and> 1000000 < liq \<and>
           slot0 c poolAddress = Inr sqrtPriceX96 \<and> sqrtPriceX96 \<noteq> 0))"
  by (auto simp: validatePancakeV3Pool_def sortedTokens_def and_then_def split: sum.splits)

text \<open>
  With a factory that answers the same for both orders of a pair, the order asked makes
  no difference, and validation decides for the canonical pair.
\<close>

lemma validatePancakeV3Pool_symmetric_factory:
  assumes sym: "\<forall>x y f. getPool c x y f = getPool c y x f"
    and a: "toChecksumAddress c tokenAddress = Inr a"
    and b: "toChecksumAddress c WBNB_ADDRESS = Inr b"
  shows "validatePancakeV3Pool c tokenAddress feeTier =
        (\<exists>poolAddress liq sqrtPriceX96.
           getPool c (fst (canonical_pair tokenAddress WBNB_ADDRESS))
                     (snd (canonical_pair tokenAddress WBNB_ADDRESS)) feeTier = Inr poolAddress \<and>
           poolAddress \<noteq> ZERO_ADDRESS \<and>
           liquidity c poolAddress = Inr liq \<and> 1000000 < liq \<and>
           slot0 c poolAddress = Inr sqrtPriceX96 \<and> sqrtPriceX96 \<noteq> 0)"
proof -
  have "getPool c (fst (canonical_pair tokenAddress WBNB_ADDRESS))
                  (snd (canonical_pair tokenAddress WBNB_ADDRESS)) feeTier
      = getPool c (if str_lt a b then tokenAddress else WBNB_ADDRESS)
                  (if str_lt a b then WBNB_ADDRESS else tokenAddress) feeTier"
    using sym [rule_format, of tokenAddress WBNB_ADDRESS feeTier]
    by (simp add: canonical_pair_def)
  then show ?thesis using validatePancakeV3Pool_decides [of c tokenAddress feeTier] a b by simp
qed

section \<open>The order of the pair\<close>

text \<open>What the code does ensure: the pair is ordered by the string comparison.\<close>

lemma sortedTokens_ordered_as_strings:
  "sortedTokens c tokenAddress = Inr (token0, token1) \<Longrightarrow>
     \<exists>a b. toChecksumAddress c tokenAddress = Inr a \<and> toChecksumAddress c WBNB_ADDRESS = Inr b \<and>
       (if str_lt a b then token0 = tokenAddress \<and> token1 = WBNB_ADDRESS
        else token0 = WBNB_ADDRESS \<and> token1 = tokenAddress)"
  by (auto simp: sortedTokens_def and_then_def split: sum.splits if_splits)

text \<open>
  Claim C10 fails on the code. The comment says the lower address goes first, but the
  comparison is between checksummed strings, where an upper-case letter sorts below a
  lower-case one. For UNI (\<^verbatim>\<open>0xBf51...\<close>) against WBNB (\<^verbatim>\<open>0xbb4C...\<close>) the code puts UNI
  first although its address is the larger number.
\<close>

theorem sortedTokens_not_ascending:
  "sortedTokens market_chain UNI_ADDRESS = Inr (UNI_ADDRESS, WBNB_ADDRESS) \<and>
   address_value WBNB_ADDRESS < address_value UNI_ADDRESS"
proof -
  have "address_value WBNB_ADDRESS < address_value UNI_ADDRESS"
    by (simp add: address_value_def UNI_ADDRESS_def WBNB_ADDRESS_def hex_digit_def)
  then show ?thesis using sortedTokens_market by simp
qed


section \<open>Token units\<close>

text \<open>
  Claim C6 fails on the code for the decimals 3, 6, 9, 12, 15 and 18: there the amount
  goes to \<^verbatim>\<open>web3.utils.toWei\<close>, which refuses a fractional part longer than the unit
  instead of cutting it, and \<^verbatim>\<open>toTokenUnits\<close> turns that into its own error. The example
  of the claim itself raises.
\<close>

theorem toTokenUnits_rejects_excess_digits:
  "toTokenUnits ''1.23456'' 3 =
     Inl (Error ''Failed to convert 1.23456 to token units with 3 decimals'')"
  by (simp add: unit_simps)

lemma toWei_rejects_excess_digits:
  "toWei ''1.23456'' ''kwei'' =
     Inl (Error ''[ethjs-unit] while converting number 1.23456 to wei, too many decimal places'')"
  by (simp add: unit_simps)

text \<open>
  The manual branch does what the claim says: it cuts, pads, strips leading zeros and
  prints zero as \<^verbatim>\<open>0\<close>; and the library branch agrees when there is nothing to cut.
\<close>

lemma toTokenUnits_examples:
  "toTokenUnits ''1.23456'' 4 = Inr ''12345''"
  "toTokenUnits ''1.5'' 4 = Inr ''15000''"
  "toTokenUnits ''007.25'' 2 = Inr ''725''"
  "toTokenUnits ''0.000'' 5 = Inr ''0''"
  "toTokenUnits ''0'' 7 = Inr ''0''"
  "toTokenUnits ''1.234'' 3 = Inr ''1234''"
  "toTokenUnits ''3.5'' 9 = Inr ''3500000000''"
  by (simp_all add: unit_simps)

text \<open>
  Claim C7 fails on the code for tokens with no decimals: the comment promises to trim
  the decimal point when it is the last character, but the pattern only matches a point
  that is followed by zeros, so the point stays and the round trip of \<^verbatim>\<open>5\<close> gives
  \<^verbatim>\<open>5.\<close>.
\<close>

theorem fromTokenUnits_keeps_point:
  "toTokenUnits ''5'' 0 = Inr ''5'' \<and> fromTokenUnits ''5'' 0 = ''5.''"
  by (simp add: unit_simps)

text \<open>With at least one decimal the way back undoes the way there on these amounts.\<close>

lemma roundtrip_examples:
  "fromTokenUnits ''12345'' 4 = ''1.2345''"
  "fromTokenUnits ''15000'' 4 = ''1.5''"
  "fromTokenUnits ''5'' 2 = ''0.05''"
  "fromTokenUnits ''100'' 2 = ''1''"
  "fromTokenUnits ''3500000000'' 9 = ''3.5''"
  "fromTokenUnits ''0'' 9 = ''0''"
  by (simp_all add: unit_simps)


section \<open>The minimum output under slippage\<close>

text \<open>The doubles of the example, step by step.\<close>

lemma double_6401_100: "number 6401 100 = Double 4504303314812273 (- 46)"
  by (simp add: number_simps)

lemma double_100: "number 100 1 = Double 25 2"
  by (simp add: number_simps)

lemma double_10000: "number 10000 1 = Double 625 4"
  by (simp add: number_simps)

lemma double_1: "number 1 1 = Double 1 0"
  by (simp add: number_simps)

lemma product_6401: "number_mul (Double 4504303314812273 (- 46)) (Double 25 2) = Double 7037973929394177 (- 40)"
  by (simp add: number_simps)

lemma difference_6401: "number_sub (Double 625 4) (Double 7037973929394177 (- 40)) = Double 3957142348365823 (- 40)"
  by (simp add: number_simps)

lemma slippageFactor_6401: "slippageFactor (number 6401 100) = Double 3957142348365823 (- 40)"
  by (simp add: slippageFactor_def double_6401_100 double_100 double_10000 product_6401 difference_6401)

lemma text_of_factor_6401: "number_toString (Double 3957142348365823 (- 40)) = ''3598.999999999999''"
  by (simp add: toString_simps number_simps)

lemma text_of_10000: "number_toString (Double 625 4) = ''10000''"
  by (simp add: toString_simps number_simps)

lemma safeBN_10000: "safeBN (NumberValue (number 10000 1)) = 10000"
  by (simp add: double_10000 text_of_10000 safeBN_text_def string_simps library_simps)

lemma toBN_10000: "toBN (number_toString (number 10000 1)) = Inr 10000"
  by (simp add: double_10000 text_of_10000 string_simps library_simps)

lemma safeBN_factor_6401: "safeBN (NumberValue (slippageFactor (number 6401 100))) = 3598"
  by (simp add: slippageFactor_6401 text_of_factor_6401 safeBN_text_def string_simps library_simps)

lemma toBN_factor_6401:
  "toBN (number_toString (slippageFactor (number 6401 100))) =
     Inl (Error (''[number-to-bn] while converting number 3598.999999999999'' @
                 '' to BN.js instance, error: invalid number value.''))"
  by (simp add: slippageFactor_6401 text_of_factor_6401 string_simps library_simps)

text \<open>
  Claim C1 fails on the code. The BN product and quotient are exact, but the factor
  \<^verbatim>\<open>10000 - slippagePercent * 100\<close> is computed in doubles before it becomes a BN. For a
  slippage of 64.01% (6401 basis points) the product is 6401.000000000001 and the factor
  3598.999999999999: \<^verbatim>\<open>safeBN\<close> cuts its text at the point and the minimum for an
  expected 10000 is 3598, not 3599; in the tier-pinned entry points \<^verbatim>\<open>web3.utils.toBN\<close>
  refuses the text and the order fails.
\<close>

theorem amountOutMin_float_factor:
  "amountOutMin_safe 10000 (number 6401 100) = 3598 \<and>
   amountOutMin_direct 10000 (number 6401 100) =
     Inl (Error (''[number-to-bn] while converting number 3598.999999999999'' @
                 '' to BN.js instance, error: invalid number value.'')) \<and>
   (10000 * (10000 - 6401)) div 10000 = (3599 :: int)"
  by (simp add: amountOutMin_safe_def amountOutMin_direct_def and_then_def safeBN_10000
      safeBN_factor_6401 toBN_factor_6401 toBN_10000 safeBN_show_int toBN_show_int BN_div_def
      del: safeBN.simps)


text \<open>
  When the factor prints as an integer, the block computes the formula of the claim.
\<close>

lemma amountOutMin_safe_integer_factor:
  assumes "number_toString (slippageFactor slippagePercent) = show_int factor"
  shows "amountOutMin_safe expectedOutput slippagePercent = BN_div (expectedOutput * factor) 10000"
proof -
  have "safeBN (NumberValue (slippageFactor slippagePercent)) = safeBN (StringValue (show_int factor))"
    using assms by simp
  then have "safeBN (NumberValue (slippageFactor slippagePercent)) = factor"
    by (simp only: safeBN_show_int)
  then show ?thesis
    by (simp add: amountOutMin_safe_def safeBN_10000 safeBN_show_int del: safeBN.simps)
qed

lemma BN_div_nonneg: "0 \<le> a \<Longrightarrow> 0 < b \<Longrightarrow> BN_div a b = a div b"
  by (cases "a = 0") (simp_all add: BN_div_def)

lemma amountOutMin_safe_formula:
  assumes "number_toString (slippageFactor slippagePercent) = show_int (10000 - bps)"
    and "0 \<le> expectedOutput" and "bps \<le> 10000"
  shows "amountOutMin_safe expectedOutput slippagePercent = (expectedOutput * (10000 - bps)) div 10000"
  using amountOutMin_safe_integer_factor [OF assms(1)] assms(2,3)
  by (simp add: BN_div_nonneg)

lemma difference_1: "number_sub (Double 625 4) (Double 25 2) = Double 2475 2"
  by (simp add: number_simps)

lemma product_1: "number_mul (Double 1 0) (Double 25 2) = Double 25 2"
  by (simp add: number_simps)

lemma slippageFactor_1: "slippageFactor (number 1 1) = Double 2475 2"
  by (simp add: slippageFactor_def double_1 double_100 double_10000 product_1 difference_1)

lemma text_of_9900: "number_toString (Double 2475 2) = ''9900''"
  by (simp add: toString_simps number_simps)

lemma product_100: "number_mul (Double 25 2) (Double 25 2) = Double 625 4"
  by (simp add: number_simps)

lemma difference_100: "number_sub (Double 625 4) (Double 625 4) = Double 0 0"
  by (simp add: number_simps)

lemma slippageFactor_100: "slippageFactor (number 100 1) = Double 0 0"
  by (simp add: slippageFactor_def double_100 double_10000 product_100 difference_100)

text \<open>The two examples of the claim: slippage of 1% and of 100% on an expected 10000.\<close>

lemma amountOutMin_examples:
  "amountOutMin_safe 10000 (number 1 1) = 9900"
  "amountOutMin_safe 10000 (number 100 1) = 0"
proof -
  have "number_toString (slippageFactor (number 1 1)) = show_int (10000 - 100)"
    by (simp add: slippageFactor_1 text_of_9900 string_simps)
  from amountOutMin_safe_formula [OF this] show "amountOutMin_safe 10000 (number 1 1) = 9900"
    by simp
  have "number_toString (slippageFactor (number 100 1)) = show_int (10000 - 10000)"
    by (simp add: slippageFactor_100 number_toString_def string_simps)
  from amountOutMin_safe_formula [OF this] show "amountOutMin_safe 10000 (number 100 1) = 0"
    by simp
qed


section \<open>The quoting fallback\<close>

lemma safeBN_small:
  "safeBN (NumberValue (number 10 1)) = 10"
  "safeBN (NumberValue (number 18 1)) = 18"
  "safeBN (NumberValue (number 90 1)) = 90"
  "safeBN (NumberValue (number 100 1)) = 100"
proof -
  have d: "number 10 1 = Double 5 1" "number 18 1 = Double 9 1" "number 90 1 = Double 45 1"
      "number 100 1 = Double 25 2"
    by (simp_all add: number_simps)
  have t: "number_toString (Double 5 1) = ''10''" "number_toString (Double 9 1) = ''18''"
      "number_toString (Double 45 1) = ''90''" "number_toString (Double 25 2) = ''100''"
    by (simp_all add: toString_simps number_simps)
  show "safeBN (NumberValue (number 10 1)) = 10"
    by (simp add: d t safeBN_text_def string_simps library_simps)
  show "safeBN (NumberValue (number 18 1)) = 18"
    by (simp add: d t safeBN_text_def string_simps library_simps)
  show "safeBN (NumberValue (number 90 1)) = 90"
    by (simp add: d t safeBN_text_def string_simps library_simps)
  show "safeBN (NumberValue (number 100 1)) = 100"
    by (simp add: d t safeBN_text_def string_simps library_simps)
qed

text \<open>
  The two estimates of level 2 in closed form. The calculation raises in one case only:
  a zero \<open>sqrtPriceX96\<close> when the input token is the first of the pair as ordered, the
  branch with the zero check. In the other order a zero \<open>sqrtPriceX96\<close> gives the price 0
  and the estimate 0, with no error.
\<close>

lemma estimate_buy_value:
  "estimate_buy ordered sqrtPrice tokenInfo amountIn =
     (if fst ordered = WBNB_ADDRESS \<and> sqrtPrice = 0
      then Inl (Error ''Price calculation failed: sqrtPriceSquared is zero'')
      else Inr (BN_div
             (BN_div (safeBN (StringValue amountIn)
                        * ((if fst ordered = WBNB_ADDRESS
                            then BN_div (2 ^ 96 * 2 ^ 96) (int sqrtPrice * int sqrtPrice)
                            else BN_div (int sqrtPrice * int sqrtPrice) (2 ^ 96 * 2 ^ 96))
                           * 10 ^ nat \<bar>18 - int (ti_decimals tokenInfo)\<bar>))
                     (10 ^ 18)
                * 90)
             100))"
  by (simp add: estimate_buy_def pool_price_def and_then_def safeBN_show_nat safeBN_small BN_pow_def
      del: safeBN.simps)

lemma estimate_sell_value:
  "estimate_sell ordered tokenAddress sqrtPrice tokenInfo amountIn =
     (if fst ordered = tokenAddress \<and> sqrtPrice = 0
      then Inl (Error ''Price calculation failed: sqrtPriceSquared is zero'')
      else Inr (BN_div
             (BN_div (safeBN (StringValue amountIn)
                        * ((if fst ordered = tokenAddress
                            then BN_div (2 ^ 96 * 2 ^ 96) (int sqrtPrice * int sqrtPrice)
                            else BN_div (int sqrtPrice * int sqrtPrice) (2 ^ 96 * 2 ^ 96))
                           * 10 ^ nat \<bar>int (ti_decimals tokenInfo) - 18\<bar>))
                     (10 ^ nat \<bar>safeBN (NumberValue (number (int (ti_decimals tokenInfo)) 1))\<bar>)
                * 90)
             100))"
  by (simp add: estimate_sell_def pool_price_def and_then_def safeBN_show_nat safeBN_small BN_pow_def
      del: safeBN.simps)

lemma BN_div_zero: "BN_div 0 b = 0"
  by (simp add: BN_div_def)

lemma estimate_raises_iff:
  "(\<exists>e. estimate_buy ordered sqrtPrice tokenInfo amountIn = Inl e)
     = (fst ordered = WBNB_ADDRESS \<and> sqrtPrice = 0)"
  "(\<exists>e. estimate_sell ordered tokenAddress sqrtPrice tokenInfo amountIn = Inl e)
     = (fst ordered = tokenAddress \<and> sqrtPrice = 0)"
  by (simp_all add: estimate_buy_value estimate_sell_value del: safeBN.simps)

lemma estimate_zero_price:
  "fst ordered \<noteq> WBNB_ADDRESS \<Longrightarrow> estimate_buy ordered 0 tokenInfo amountIn = Inr 0"
  "fst ordered \<noteq> tokenAddress \<Longrightarrow> estimate_sell ordered tokenAddress 0 tokenInfo amountIn = Inr 0"
  by (simp_all add: estimate_buy_value estimate_sell_value BN_div_zero del: safeBN.simps)


lemma encodePath_single_hop:
  "encodePath [tokenIn, tokenOut] [fee] =
     Inr (''0x'' @ drop 2 tokenIn @ padStart 6 (show_hex fee) @ drop 2 tokenOut)"
  by (simp add: encodePath_def)

lemma quote_level1:
  "quoter_amount (quoteExactInput c encoded amountIn) = Inr amount \<Longrightarrow>
     buyToken_quote c tokenAddress tokenInfo feeTier encoded amountIn = Inr (amount, False) \<and>
     sellToken_quote c tokenAddress tokenInfo feeTier encoded amountIn = Inr (amount, False) \<and>
     buyTokenWithFeeTier_quote c tokenAddress tokenInfo feeTier encoded amountIn = Inr (amount, False) \<and>
     sellTokenWithFeeTier_quote c tokenAddress tokenInfo feeTier encoded amountIn = Inr (amount, False)"
  by (simp add: buyToken_quote_def sellToken_quote_def buyTokenWithFeeTier_quote_def
      sellTokenWithFeeTier_quote_def)

lemma quote_level2:
  assumes "quoter_amount (quoteExactInput c encoded amountIn) = Inl quoteError"
    and "pool_state c tokenAddress feeTier = Inr (Some (ordered, sqrtPrice))"
  shows "estimate_buy ordered sqrtPrice tokenInfo amountIn = Inr amount \<Longrightarrow>
           buyToken_quote c tokenAddress tokenInfo feeTier encoded amountIn = Inr (amount, True) \<and>
           buyTokenWithFeeTier_quote c tokenAddress tokenInfo feeTier encoded amountIn = Inr (amount, True)"
    and "estimate_sell ordered tokenAddress sqrtPrice tokenInfo amountIn = Inr amount \<Longrightarrow>
           sellToken_quote c tokenAddress tokenInfo feeTier encoded amountIn = Inr (amount, True) \<and>
           sellTokenWithFeeTier_quote c tokenAddress tokenInfo feeTier encoded amountIn = Inr (amount, True)"
    and "estimate_buy ordered sqrtPrice tokenInfo amountIn = Inl calcError \<Longrightarrow>
           buyToken_quote c tokenAddress tokenInfo feeTier encoded amountIn = Inr (MINIMAL_FALLBACK, True) \<and>
           buyTokenWithFeeTier_quote c tokenAddress tokenInfo feeTier encoded amountIn
             = Inr (MINIMAL_FALLBACK, True)"
    and "estimate_sell ordered tokenAddress sqrtPrice tokenInfo amountIn = Inl calcError \<Longrightarrow>
           sellToken_quote c tokenAddress tokenInfo feeTier encoded amountIn = Inr (MINIMAL_FALLBACK, True) \<and>
           sellTokenWithFeeTier_quote c tokenAddress tokenInfo feeTier encoded amountIn
             = Inr (MINIMAL_FALLBACK, True)"
  using assms
  by (simp_all add: buyToken_quote_def sellToken_quote_def buyTokenWithFeeTier_quote_def
      sellTokenWithFeeTier_quote_def)

lemma quote_no_pool:
  assumes "quoter_amount (quoteExactInput c encoded amountIn) = Inl quoteError"
    and "pool_state c tokenAddress feeTier = Inr None"
  shows "buyToken_quote c tokenAddress tokenInfo feeTier encoded amountIn = Inr (MINIMAL_FALLBACK, True) \<and>
         sellToken_quote c tokenAddress tokenInfo feeTier encoded amountIn = Inr (MINIMAL_FALLBACK, True) \<and>
         buyTokenWithFeeTier_quote c tokenAddress tokenInfo feeTier encoded amountIn
           = Inl (could_not_estimate feeTier (no_pool_exists feeTier)) \<and>
         sellTokenWithFeeTier_quote c tokenAddress tokenInfo feeTier encoded amountIn
           = Inl (could_not_estimate feeTier (no_pool_exists feeTier))"
  using assms
  by (simp add: buyToken_quote_def sellToken_quote_def buyTokenWithFeeTier_quote_def
      sellTokenWithFeeTier_quote_def)

lemma quote_pool_read_fails:
  assumes "quoter_amount (quoteExactInput c encoded amountIn) = Inl quoteError"
    and "pool_state c tokenAddress feeTier = Inl fallbackError"
  shows "buyToken_quote c tokenAddress tokenInfo feeTier encoded amountIn = Inr (MINIMAL_FALLBACK, True) \<and>
         sellToken_quote c tokenAddress tokenInfo feeTier encoded amountIn = Inr (MINIMAL_FALLBACK, True) \<and>
         buyTokenWithFeeTier_quote c tokenAddress tokenInfo feeTier encoded amountIn
           = Inl (could_not_estimate feeTier fallbackError) \<and>
         sellTokenWithFeeTier_quote c tokenAddress tokenInfo feeTier encoded amountIn
           = Inl (could_not_estimate feeTier fallbackError)"
  using assms
  by (simp add: buyToken_quote_def sellToken_quote_def buyTokenWithFeeTier_quote_def
      sellTokenWithFeeTier_quote_def)

lemma auto_quote_returns:
  "\<exists>amount usedFallback.
     buyToken_quote c tokenAddress tokenInfo feeTier encoded amountIn = Inr (amount, usedFallback)"
  "\<exists>amount usedFallback.
     sellToken_quote c tokenAddress tokenInfo feeTier encoded amountIn = Inr (amount, usedFallback)"
  by (auto simp: buyToken_quote_def sellToken_quote_def split: sum.splits option.splits prod.splits)

lemma pinned_quote_raises_iff:
  "(\<exists>e. buyTokenWithFeeTier_quote c tokenAddress tokenInfo feeTier encoded amountIn = Inl e) =
     ((\<exists>e. quoter_amount (quoteExactInput c encoded amountIn) = Inl e) \<and>
      (pool_state c tokenAddress feeTier = Inr None \<or> (\<exists>e. pool_state c tokenAddress feeTier = Inl e)))"
  "(\<exists>e. sellTokenWithFeeTier_quote c tokenAddress tokenInfo feeTier encoded amountIn = Inl e) =
     ((\<exists>e. quoter_amount (quoteExactInput c encoded amountIn) = Inl e) \<and>
      (pool_state c tokenAddress feeTier = Inr None \<or> (\<exists>e. pool_state c tokenAddress feeTier = Inl e)))"
  by (auto simp: buyTokenWithFeeTier_quote_def sellTokenWithFeeTier_quote_def
      split: sum.splits option.splits prod.splits)

text \<open>
  Claim C2, as amended. What each quoting block returns, level by level.
  \<^enum> When the quoter call is answered with an amount, all four blocks return that amount.
  \<^enum> When the quoter call fails and the pool is read, all four return the pool-state
    estimate, or the fixed fallback 1000 when the price calculation raises.
  \<^enum> When the quoter call fails and there is no pool, or a pool read raises, the blocks of
    \<^verbatim>\<open>buyToken\<close> and \<^verbatim>\<open>sellToken\<close> return 1000, and the blocks of \<^verbatim>\<open>buyTokenWithFeeTier\<close>
    and \<^verbatim>\<open>sellTokenWithFeeTier\<close> raise \<^verbatim>\<open>Could not estimate price ...\<close>.
  \<^enum> The price calculation raises exactly for a zero \<open>sqrtPriceX96\<close> with the input token
    first in the pair as ordered; with the input token second, a zero \<open>sqrtPriceX96\<close> gives
    the estimate 0, which is returned as the quote.
  \<^enum> So the blocks of \<^verbatim>\<open>buyToken\<close> and \<^verbatim>\<open>sellToken\<close> never raise, the tier-pinned blocks
    raise exactly in the third case, and the path of a single hop, which is all the entry
    points encode, is never refused.
\<close>

theorem quoting_fallback:
  "(\<forall>amount.
      quoter_amount (quoteExactInput c encoded amountIn) = Inr amount \<longrightarrow>
        buyToken_quote c tokenAddress tokenInfo feeTier encoded amountIn = Inr (amount, False) \<and>
        sellToken_quote c tokenAddress tokenInfo feeTier encoded amountIn = Inr (amount, False) \<and>
        buyTokenWithFeeTier_quote c tokenAddress tokenInfo feeTier encoded amountIn = Inr (amount, False) \<and>
        sellTokenWithFeeTier_quote c tokenAddress tokenInfo feeTier encoded amountIn = Inr (amount, False)) \<and>
   (\<forall>quoteError ordered sqrtPrice.
      quoter_amount (quoteExactInput c encoded amountIn) = Inl quoteError \<and>
      pool_state c tokenAddress feeTier = Inr (Some (ordered, sqrtPrice)) \<longrightarrow>
        (\<forall>amount. estimate_buy ordered sqrtPrice tokenInfo amountIn = Inr amount \<longrightarrow>
           buyToken_quote c tokenAddress tokenInfo feeTier encoded amountIn = Inr (amount, True) \<and>
           buyTokenWithFeeTier_quote c tokenAddress tokenInfo feeTier encoded amountIn = Inr (amount, True)) \<and>
        (\<forall>amount. estimate_sell ordered tokenAddress sqrtPrice tokenInfo amountIn = Inr amount \<longrightarrow>
           sellToken_quote c tokenAddress tokenInfo feeTier encoded amountIn = Inr (amount, True) \<and>
           sellTokenWithFeeTier_quote c tokenAddress tokenInfo feeTier encoded amountIn = Inr (amount, True)) \<and>
        (\<forall>calcError. estimate_buy ordered sqrtPrice tokenInfo amountIn = Inl calcError \<longrightarrow>
           buyToken_quote c tokenAddress tokenInfo feeTier encoded amountIn = Inr (MINIMAL_FALLBACK, True) \<and>
           buyTokenWithFeeTier_quote c tokenAddress tokenInfo feeTier encoded amountIn
             = Inr (MINIMAL_FALLBACK, True)) \<and>
        (\<forall>calcError. estimate_sell ordered tokenAddress sqrtPrice tokenInfo amountIn = Inl calcError \<longrightarrow>
           sellToken_quote c tokenAddress tokenInfo feeTier encoded amountIn = Inr (MINIMAL_FALLBACK, True) \<and>
           sellTokenWithFeeTier_quote c tokenAddress tokenInfo feeTier encoded amountIn
             = Inr (MINIMAL_FALLBACK, True))) \<and>
   (\<forall>quoteError.
      quoter_amount (quoteExactInput c encoded amountIn) = Inl quoteError \<and>
      pool_state c tokenAddress feeTier = Inr None \<longrightarrow>
        buyToken_quote c tokenAddress tokenInfo feeTier encoded amountIn = Inr (MINIMAL_FALLBACK, True) \<and>
        sellToken_quote c tokenAddress tokenInfo feeTier encoded amountIn = Inr (MINIMAL_FALLBACK, True) \<and>
        buyTokenWithFeeTier_quote c tokenAddress tokenInfo feeTier encoded amountIn
          = Inl (could_not_estimate feeTier (no_pool_exists feeTier)) \<and>
        sellTokenWithFeeTier_quote c tokenAddress tokenInfo feeTier encoded amountIn
          = Inl (could_not_estimate feeTier (no_pool_exists feeTier))) \<and>
   (\<forall>quoteError fallbackError.
      quoter_amount (quoteExactInput c encoded amountIn) = Inl quoteError \<and>
      pool_state c tokenAddress feeTier = Inl fallbackError \<longrightarrow>
        buyToken_quote c tokenAddress tokenInfo feeTier encoded amountIn = Inr (MINIMAL_FALLBACK, True) \<and>
        sellToken_quote c tokenAddress tokenInfo feeTier encoded amountIn = Inr (MINIMAL_FALLBACK, True) \<and>
        buyTokenWithFeeTier_quote c tokenAddress tokenInfo feeTier encoded amountIn
          = Inl (could_not_estimate feeTier fallbackError) \<and>
        sellTokenWithFeeTier_quote c tokenAddress tokenInfo feeTier encoded amountIn
          = Inl (could_not_estimate feeTier fallbackError)) \<and>
   (\<forall>ordered sqrtPrice.
      ((\<exists>e. estimate_buy ordered sqrtPrice tokenInfo amountIn = Inl e)
         = (fst ordered = WBNB_ADDRESS \<and> sqrtPrice = 0)) \<and>
      ((\<exists>e. estimate_sell ordered tokenAddress sqrtPrice tokenInfo amountIn = Inl e)
         = (fst ordered = tokenAddress \<and> sqrtPrice = 0)) \<and>
      (fst ordered \<noteq> WBNB_ADDRESS \<longrightarrow> estimate_buy ordered 0 tokenInfo amountIn = Inr 0) \<and>
      (fst ordered \<noteq> tokenAddress \<longrightarrow> estimate_sell ordered tokenAddress 0 tokenInfo amountIn = Inr 0)) \<and>
   MINIMAL_FALLBACK = 1000 \<and>
   (\<exists>amount usedFallback.
      buyToken_quote c tokenAddress tokenInfo feeTier encoded amountIn = Inr (amount, usedFallback)) \<and>
   (\<exists>amount usedFallback.
      sellToken_quote c tokenAddress tokenInfo feeTier encoded amountIn = Inr (amount, usedFallback)) \<and>
   ((\<exists>e. buyTokenWithFeeTier_quote c tokenAddress tokenInfo feeTier encoded amountIn = Inl e) =
     ((\<exists>e. quoter_amount (quoteExactInput c encoded amountIn) = Inl e) \<and>
      (pool_state c tokenAddress feeTier = Inr None \<or> (\<exists>e. pool_state c tokenAddress feeTier = Inl e)))) \<and>
   ((\<exists>e. sellTokenWithFeeTier_quote c tokenAddress tokenInfo feeTier encoded amountIn = Inl e) =
     ((\<exists>e. quoter_amount (quoteExactInput c encoded amountIn) = Inl e) \<and>
      (pool_state c tokenAddress feeTier = Inr None \<or> (\<exists>e. pool_state c tokenAddress feeTier = Inl e)))) \<and>
   (\<exists>encodedPath. encodePath [tokenAddress, WBNB_ADDRESS] [feeTier] = Inr encodedPath) \<and>
   (\<exists>encodedPath. encodePath [WBNB_ADDRESS, tokenAddress] [feeTier] = Inr encodedPath)"
proof -
  have l1: "\<forall>amount.
      quoter_amount (quoteExactInput c encoded amountIn) = Inr amount \<longrightarrow>
        buyToken_quote c tokenAddress tokenInfo feeTier encoded amountIn = Inr (amount, False) \<and>
        sellToken_quote c tokenAddress tokenInfo feeTier encoded amountIn = Inr (amount, False) \<and>
        buyTokenWithFeeTier_quote c tokenAddress tokenInfo feeTier encoded amountIn = Inr (amount, False) \<and>
        sellTokenWithFeeTier_quote c tokenAddress tokenInfo feeTier encoded amountIn = Inr (amount, False)"
    using quote_level1 by blast
  have l2: "\<forall>quoteError ordered sqrtPrice.
      quoter_amount (quoteExactInput c encoded amountIn) = Inl quoteError \<and>
      pool_state c tokenAddress feeTier = Inr (Some (ordered, sqrtPrice)) \<longrightarrow>
        (\<forall>amount. estimate_buy ordered sqrtPrice tokenInfo amountIn = Inr amount \<longrightarrow>
           buyToken_quote c tokenAddress tokenInfo feeTier encoded amountIn = Inr (amount, True) \<and>
           buyTokenWithFeeTier_quote c tokenAddress tokenInfo feeTier encoded amountIn = Inr (amount, True)) \<and>
        (\<forall>amount. estimate_sell ordered tokenAddress sqrtPrice tokenInfo amountIn = Inr amount \<longrightarrow>
           sellToken_quote c tokenAddress tokenInfo feeTier encoded amountIn = Inr (amount, True) \<and>
           sellTokenWithFeeTier_quote c tokenAddress tokenInfo feeTier encoded amountIn = Inr (amount, True)) \<and>
        (\<forall>calcError. estimate_buy ordered sqrtPrice tokenInfo amountIn = Inl calcError \<longrightarrow>
           buyToken_quote c tokenAddress tokenInfo feeTier encoded amountIn = Inr (MINIMAL_FALLBACK, True) \<and>
           buyTokenWithFeeTier_quote c tokenAddress tokenInfo feeTier encoded amountIn
             = Inr (MINIMAL_FALLBACK, True)) \<and>
        (\<forall>calcError. estimate_sell ordered tokenAddress sqrtPrice tokenInfo amountIn = Inl calcError \<longrightarrow>
           sellToken_quote c tokenAddress tokenInfo feeTier encoded amountIn = Inr (MINIMAL_FALLBACK, True) \<and>
           sellTokenWithFeeTier_quote c tokenAddress tokenInfo feeTier encoded amountIn
             = Inr (MINIMAL_FALLBACK, True))"
    by (simp add: buyToken_quote_def sellToken_quote_def buyTokenWithFeeTier_quote_def
        sellTokenWithFeeTier_quote_def)
  have l3: "\<forall>quoteError.
      quoter_amount (quoteExactInput c encoded amountIn) = Inl quoteError \<and>
      pool_state c tokenAddress feeTier = Inr None \<longrightarrow>
        buyToken_quote c tokenAddress tokenInfo feeTier encoded amountIn = Inr (MINIMAL_FALLBACK, True) \<and>
        sellToken_quote c tokenAddress tokenInfo feeTier encoded amountIn = Inr (MINIMAL_FALLBACK, True) \<and>
        buyTokenWithFeeTier_quote c tokenAddress tokenInfo feeTier encoded amountIn
          = Inl (could_not_estimate feeTier (no_pool_exists feeTier)) \<and>
        sellTokenWithFeeTier_quote c tokenAddress tokenInfo feeTier encoded amountIn
          = Inl (could_not_estimate feeTier (no_pool_exists feeTier))"
    using quote_no_pool by blast
  have l4: "\<forall>quoteError fallbackError.
      quoter_amount (quoteExactInput c encoded amountIn) = Inl quoteError \<and>
      pool_state c tokenAddress feeTier = Inl fallbackError \<longrightarrow>
        buyToken_quote c tokenAddress tokenInfo feeTier encoded amountIn = Inr (MINIMAL_FALLBACK, True) \<and>
        sellToken_quote c tokenAddress tokenInfo feeTier encoded amountIn = Inr (MINIMAL_FALLBACK, True) \<and>
        buyTokenWithFeeTier_quote c tokenAddress tokenInfo feeTier encoded amountIn
          = Inl (could_not_estimate feeTier fallbackError) \<and>
        sellTokenWithFeeTier_quote c tokenAddress tokenInfo feeTier encoded amountIn
          = Inl (could_not_estimate feeTier fallbackError)"
    using quote_pool_read_fails by blast
  have l5: "\<forall>ordered sqrtPrice.
      ((\<exists>e. estimate_buy ordered sqrtPrice tokenInfo amountIn = Inl e)
         = (fst ordered = WBNB_ADDRESS \<and> sqrtPrice = 0)) \<and>
      ((\<exists>e. estimate_sell ordered tokenAddress sqrtPrice tokenInfo amountIn = Inl e)
         = (fst ordered = tokenAddress \<and> sqrtPrice = 0)) \<and>
      (fst ordered \<noteq> WBNB_ADDRESS \<longrightarrow> estimate_buy ordered 0 tokenInfo amountIn = Inr 0) \<and>
      (fst ordered \<noteq> tokenAddress \<longrightarrow> estimate_sell ordered tokenAddress 0 tokenInfo amountIn = Inr 0)"
    by (intro allI conjI impI estimate_raises_iff estimate_zero_price)
  have l6: "MINIMAL_FALLBACK = 1000" by (simp add: MINIMAL_FALLBACK_def)
  have l7: "\<exists>encodedPath. encodePath [tokenAddress, WBNB_ADDRESS] [feeTier] = Inr encodedPath"
    by (simp add: encodePath_single_hop)
  have l8: "\<exists>encodedPath. encodePath [WBNB_ADDRESS, tokenAddress] [feeTier] = Inr encodedPath"
    by (simp add: encodePath_single_hop)
  show ?thesis
    by (intro conjI l1 l2 l3 l4 l5 l6 l7 l8 auto_quote_returns pinned_quote_raises_iff)
qed


lemma UNI_sorts_first: "str_lt UNI_ADDRESS WBNB_ADDRESS"
  by (simp add: UNI_ADDRESS_def WBNB_ADDRESS_def)

lemma pool_state_offline: "pool_state offline_chain UNI_ADDRESS FEE_MEDIUM = Inl (Error ''offline'')"
  by (simp add: pool_state_def sortedTokens_def and_then_def offline_chain_def)

lemma pool_state_stalled: "pool_state stalled_chain UNI_ADDRESS FEE_MEDIUM = Inl (Error ''timeout'')"
  by (simp add: pool_state_def sortedTokens_def and_then_def stalled_chain_def market_chain_def
      offline_chain_def UNI_sorts_first FEE_MEDIUM_def pool_at_def ZERO_ADDRESS_def string_simps)

lemma pool_state_quoter_down:
  "pool_state quoter_down_chain UNI_ADDRESS FEE_MEDIUM
     = Inr (Some ((UNI_ADDRESS, WBNB_ADDRESS), 79228162514264337593543950336))"
  "pool_state quoter_down_chain UNI_ADDRESS FEE_LOW = Inr None"
  by (simp_all add: pool_state_def sortedTokens_def and_then_def quoter_down_chain_def market_chain_def
      offline_chain_def UNI_sorts_first FEE_MEDIUM_def FEE_LOW_def pool_at_def ZERO_ADDRESS_def
      string_simps)

lemma pool_state_unpriced:
  "pool_state unpriced_chain UNI_ADDRESS FEE_MEDIUM = Inr (Some ((UNI_ADDRESS, WBNB_ADDRESS), 0))"
  by (simp add: pool_state_def sortedTokens_def and_then_def unpriced_chain_def quoter_down_chain_def
      market_chain_def offline_chain_def UNI_sorts_first FEE_MEDIUM_def pool_at_def ZERO_ADDRESS_def
      string_simps)

lemma quoter_answers:
  "quoter_amount (quoteExactInput market_chain p a) = Inr 1000000"
  "quoter_amount (quoteExactInput quoter_down_chain p a) = Inl (Error ''execution reverted'')"
  "quoter_amount (quoteExactInput unpriced_chain p a) = Inl (Error ''execution reverted'')"
  "quoter_amount (quoteExactInput offline_chain p a) = Inl (Error ''offline'')"
  by (simp_all add: quoter_amount_def market_chain_def quoter_down_chain_def unpriced_chain_def
      offline_chain_def)

lemma UNI_not_WBNB: "UNI_ADDRESS \<noteq> WBNB_ADDRESS"
  by (simp add: UNI_ADDRESS_def WBNB_ADDRESS_def)

lemma amount_500: "safeBN (StringValue ''500000000000000000000'') = 500000000000000000000"
  by (simp add: safeBN_text_def string_simps library_simps)

lemma estimates_at_par:
  "estimate_buy (UNI_ADDRESS, WBNB_ADDRESS) 79228162514264337593543950336
     \<lparr>ti_symbol = ''UNI'', ti_name = ''Uniswap'', ti_decimals = 18\<rparr> ''500000000000000000000'' = Inr 450"
  "estimate_sell (UNI_ADDRESS, WBNB_ADDRESS) UNI_ADDRESS 79228162514264337593543950336
     \<lparr>ti_symbol = ''UNI'', ti_name = ''Uniswap'', ti_decimals = 18\<rparr> ''500000000000000000000'' = Inr 450"
  by (simp_all add: estimate_buy_value estimate_sell_value UNI_not_WBNB amount_500 safeBN_small
      BN_div_def del: safeBN.simps)

text \<open>
  One example for each case: the quoter answers (market); the quoter reverts and the
  estimate is read from the pool, 450 for the amount of the example at price 1; the pool
  is not initialised, where buying gets the estimate 0 and selling the fallback; no pool
  at the 0.05% tier; and the node offline.
\<close>

theorem quoting_fallback_witness:
  "buyToken_quote market_chain UNI_ADDRESS \<lparr>ti_symbol = ''UNI'', ti_name = ''Uniswap'', ti_decimals = 18\<rparr>
     FEE_MEDIUM ''0x'' ''500000000000000000000'' = Inr (1000000, False) \<and>
   buyToken_quote quoter_down_chain UNI_ADDRESS \<lparr>ti_symbol = ''UNI'', ti_name = ''Uniswap'', ti_decimals = 18\<rparr>
     FEE_MEDIUM ''0x'' ''500000000000000000000'' = Inr (450, True) \<and>
   sellTokenWithFeeTier_quote quoter_down_chain UNI_ADDRESS
     \<lparr>ti_symbol = ''UNI'', ti_name = ''Uniswap'', ti_decimals = 18\<rparr>
     FEE_MEDIUM ''0x'' ''500000000000000000000'' = Inr (450, True) \<and>
   buyToken_quote unpriced_chain UNI_ADDRESS \<lparr>ti_symbol = ''UNI'', ti_name = ''Uniswap'', ti_decimals = 18\<rparr>
     FEE_MEDIUM ''0x'' ''500000000000000000000'' = Inr (0, True) \<and>
   sellToken_quote unpriced_chain UNI_ADDRESS \<lparr>ti_symbol = ''UNI'', ti_name = ''Uniswap'', ti_decimals = 18\<rparr>
     FEE_MEDIUM ''0x'' ''500000000000000000000'' = Inr (1000, True) \<and>
   buyToken_quote quoter_down_chain UNI_ADDRESS \<lparr>ti_symbol = ''UNI'', ti_name = ''Uniswap'', ti_decimals = 18\<rparr>
     FEE_LOW ''0x'' ''500000000000000000000'' = Inr (1000, True) \<and>
   buyTokenWithFeeTier_quote quoter_down_chain UNI_ADDRESS
     \<lparr>ti_symbol = ''UNI'', ti_name = ''Uniswap'', ti_decimals = 18\<rparr>
     FEE_LOW ''0x'' ''500000000000000000000'' = Inl (could_not_estimate FEE_LOW (no_pool_exists FEE_LOW)) \<and>
   sellToken_quote offline_chain UNI_ADDRESS \<lparr>ti_symbol = ''UNI'', ti_name = ''Uniswap'', ti_decimals = 18\<rparr>
     FEE_MEDIUM ''0x'' ''500000000000000000000'' = Inr (1000, True)"
proof -
  let ?info = "\<lparr>ti_symbol = ''UNI'', ti_name = ''Uniswap'', ti_decimals = 18\<rparr>"
  let ?amt = "''500000000000000000000''"
  have w1: "buyToken_quote market_chain UNI_ADDRESS ?info FEE_MEDIUM ''0x'' ?amt = Inr (1000000, False)"
    using quoter_answers(1) [of "''0x''" ?amt]
      quoting_fallback [where c = market_chain and tokenAddress = UNI_ADDRESS and tokenInfo = ?info
        and feeTier = FEE_MEDIUM and encoded = "''0x''" and amountIn = ?amt]
    by (simp del: safeBN.simps)
  have w2: "buyToken_quote quoter_down_chain UNI_ADDRESS ?info FEE_MEDIUM ''0x'' ?amt = Inr (450, True) \<and>
      sellTokenWithFeeTier_quote quoter_down_chain UNI_ADDRESS ?info FEE_MEDIUM ''0x'' ?amt = Inr (450, True)"
    using quoter_answers(2) [of "''0x''" ?amt] pool_state_quoter_down(1) estimates_at_par
      quoting_fallback [where c = quoter_down_chain and tokenAddress = UNI_ADDRESS and tokenInfo = ?info
        and feeTier = FEE_MEDIUM and encoded = "''0x''" and amountIn = ?amt]
    by (simp del: safeBN.simps)
  have z: "estimate_buy (UNI_ADDRESS, WBNB_ADDRESS) 0 ?info ?amt = Inr 0"
      "\<exists>e. estimate_sell (UNI_ADDRESS, WBNB_ADDRESS) UNI_ADDRESS 0 ?info ?amt = Inl e"
    using UNI_not_WBNB
      quoting_fallback [where c = unpriced_chain and tokenAddress = UNI_ADDRESS and tokenInfo = ?info
        and feeTier = FEE_MEDIUM and encoded = "''0x''" and amountIn = ?amt]
    by (simp_all del: safeBN.simps)
  have w3: "buyToken_quote unpriced_chain UNI_ADDRESS ?info FEE_MEDIUM ''0x'' ?amt = Inr (0, True) \<and>
      sellToken_quote unpriced_chain UNI_ADDRESS ?info FEE_MEDIUM ''0x'' ?amt = Inr (MINIMAL_FALLBACK, True)"
    using quoter_answers(3) [of "''0x''" ?amt] pool_state_unpriced z
      quoting_fallback [where c = unpriced_chain and tokenAddress = UNI_ADDRESS and tokenInfo = ?info
        and feeTier = FEE_MEDIUM and encoded = "''0x''" and amountIn = ?amt]
    by (simp del: safeBN.simps)
  have w4: "buyToken_quote quoter_down_chain UNI_ADDRESS ?info FEE_LOW ''0x'' ?amt = Inr (MINIMAL_FALLBACK, True) \<and>
      buyTokenWithFeeTier_quote quoter_down_chain UNI_ADDRESS ?info FEE_LOW ''0x'' ?amt
        = Inl (could_not_estimate FEE_LOW (no_pool_exists FEE_LOW))"
    using quoter_answers(2) [of "''0x''" ?amt] pool_state_quoter_down(2)
      quoting_fallback [where c = quoter_down_chain and tokenAddress = UNI_ADDRESS and tokenInfo = ?info
        and feeTier = FEE_LOW and encoded = "''0x''" and amountIn = ?amt]
    by (simp del: safeBN.simps)
  have w5: "sellToken_quote offline_chain UNI_ADDRESS ?info FEE_MEDIUM ''0x'' ?amt = Inr (MINIMAL_FALLBACK, True)"
    using quoter_answers(4) [of "''0x''" ?amt] pool_state_offline
      quoting_fallback [where c = offline_chain and tokenAddress = UNI_ADDRESS and tokenInfo = ?info
        and feeTier = FEE_MEDIUM and encoded = "''0x''" and amountIn = ?amt]
    by (simp del: safeBN.simps)
  show ?thesis using w1 w2 w3 w4 w5 by (simp add: MINIMAL_FALLBACK_def)
qed

lemma fee_percent_medium: "fee_percent FEE_MEDIUM = ''0.25''"
proof -
  have "number 2500 10000 = Double 1 (- 2)" by (simp add: number_simps)
  moreover have "number_toString (Double 1 (- 2)) = ''0.25''"
    by (simp add: toString_simps number_simps)
  ultimately show ?thesis by (simp add: fee_percent_def FEE_MEDIUM_def)
qed

text \<open>
  The claim as stated fails for the tier-pinned entry points. The reads of the block are
  requests of their own, made after the pool was validated; when the quoter call reverts
  and the \<^verbatim>\<open>slot0\<close> read then raises, the block raises.
\<close>

theorem pinned_quote_raises:
  "buyTokenWithFeeTier_quote stalled_chain UNI_ADDRESS BNB_TOKEN_INFO FEE_MEDIUM
     ''0xbb4CdB9CBd36B01bD1cBaEBF2De08d9173bc095c0009c4Bf5140A22578168FD562DCcF235E5D43A02ce9B1''
     ''1000000000000000000''
   = Inl (Error ''Could not estimate price for 0.25% fee tier: timeout'') \<and>
   sellTokenWithFeeTier_quote stalled_chain UNI_ADDRESS BNB_TOKEN_INFO FEE_MEDIUM
     ''0xBf5140A22578168FD562DCcF235E5D43A02ce9B10009c4bb4CdB9CBd36B01bD1cBaEBF2De08d9173bc095c''
     ''1000000000000000000''
   = Inl (Error ''Could not estimate price for 0.25% fee tier: timeout'')"
proof -
  have q: "\<And>p a. quoter_amount (quoteExactInput stalled_chain p a) = Inl (Error ''execution reverted'')"
    by (simp add: quoter_amount_def stalled_chain_def)
  show ?thesis
    by (simp add: buyTokenWithFeeTier_quote_def sellTokenWithFeeTier_quote_def q pool_state_stalled
        could_not_estimate_def fee_percent_medium)
qed

section \<open>\<^verbatim>\<open>sellToken\<close> never trades\<close>

lemma tokenContract_undeclared:
  "reference sellToken_scope ''tokenContract'' v = Inl (ReferenceError ''tokenContract'')"
  by (simp add: reference_def sellToken_scope_def module_scope_def)

lemma tokenContract_declared:
  "reference sellTokenWithFeeTier_scope ''tokenContract'' v = Inr v"
  by (simp add: reference_def sellTokenWithFeeTier_scope_def)

lemma and_then_Inl: "and_then (Inl e) f = Inl e"
  by (simp add: and_then_def)

lemma and_then_Inr: "and_then (Inr x) f = f x"
  by (simp add: and_then_def)

lemma sellToken_order_raises:
  "\<exists>e. sellToken_order c walletAddress tokenAddress tokenAmount slippagePercent = Inl e"
proof (cases "getTokenInfo c tokenAddress")
  case (Inl e)
  then show ?thesis by (simp add: sellToken_order_def and_then_Inl)
next
  case (Inr tokenInfo)
  show ?thesis
  proof (cases "toTokenUnits tokenAmount (ti_decimals tokenInfo)")
    case (Inl e)
    with Inr show ?thesis by (simp add: sellToken_order_def and_then_Inl and_then_Inr)
  next
    case (Inr units)
    with \<open>getTokenInfo c tokenAddress = Inr tokenInfo\<close> show ?thesis
      by (simp add: sellToken_order_def and_then_Inl and_then_Inr tokenContract_undeclared)
  qed
qed

lemma sellToken_order_reference:
  "getTokenInfo c tokenAddress = Inr tokenInfo \<Longrightarrow>
   toTokenUnits tokenAmount (ti_decimals tokenInfo) = Inr units \<Longrightarrow>
     sellToken_order c walletAddress tokenAddress tokenAmount slippagePercent
       = Inl (ReferenceError ''tokenContract'')"
  by (simp add: sellToken_order_def and_then_Inl and_then_Inr tokenContract_undeclared)

lemma cleanup_keeps_submitted:
  "submitted (cleanup c st privateKey) = submitted st \<and>
   nonceCache (cleanup c st privateKey) = nonceCache st"
  by (simp add: cleanup_def split: sum.splits)

lemma sellToken_account_failure:
  "privateKeyToAccount c privateKey = Inl e \<Longrightarrow>
     sellToken c st privateKey tokenAddress tokenAmount slippagePercent
       = (Inl e, cleanup c st privateKey)"
  by (simp add: sellToken_def or_cleanup_def)

lemma sellToken_order_failure:
  "privateKeyToAccount c privateKey = Inr walletAddress \<Longrightarrow>
   sellToken_order c walletAddress tokenAddress tokenAmount slippagePercent = Inl e \<Longrightarrow>
     sellToken c st privateKey tokenAddress tokenAmount slippagePercent
       = (Inl e, cleanup c (st\<lparr>wallet := List.insert walletAddress (wallet st)\<rparr>) privateKey)"
  by (simp add: sellToken_def or_cleanup_def)

text \<open>
  Claim C3. \<^verbatim>\<open>sellToken\<close> returns an error for every chain, engine state, key, token
  address, amount and slippage: it never returns a transaction hash, and the list of
  submitted approvals and transactions is as it was before the call. Whenever the key
  gives an account, the token information is read and the amount converts to units, the
  error is the reference error for \<^verbatim>\<open>tokenContract\<close>, raised where the balance check reads
  that name; the answer of the balance read has no part in it.
\<close>

theorem sellToken_never_trades:
  "(\<exists>e. fst (sellToken c st privateKey tokenAddress tokenAmount slippagePercent) = Inl e) \<and>
   submitted (snd (sellToken c st privateKey tokenAddress tokenAmount slippagePercent)) = submitted st \<and>
   (\<forall>walletAddress tokenInfo units.
      privateKeyToAccount c privateKey = Inr walletAddress \<and>
      getTokenInfo c tokenAddress = Inr tokenInfo \<and>
      toTokenUnits tokenAmount (ti_decimals tokenInfo) = Inr units \<longrightarrow>
        fst (sellToken c st privateKey tokenAddress tokenAmount slippagePercent)
          = Inl (ReferenceError ''tokenContract''))"
proof (cases "privateKeyToAccount c privateKey")
  case (Inl e)
  then show ?thesis by (simp add: sellToken_account_failure cleanup_keeps_submitted)
next
  case (Inr walletAddress)
  obtain e where e: "sellToken_order c walletAddress tokenAddress tokenAmount slippagePercent = Inl e"
    using sellToken_order_raises by blast
  have r: "\<forall>tokenInfo units.
      getTokenInfo c tokenAddress = Inr tokenInfo \<and>
      toTokenUnits tokenAmount (ti_decimals tokenInfo) = Inr units \<longrightarrow>
        e = ReferenceError ''tokenContract''"
    using sellToken_order_reference [of c tokenAddress _ tokenAmount _ walletAddress slippagePercent] e
    by auto
  have s: "sellToken c st privateKey tokenAddress tokenAmount slippagePercent
       = (Inl e, cleanup c (st\<lparr>wallet := List.insert walletAddress (wallet st)\<rparr>) privateKey)"
    using Inr e by (rule sellToken_order_failure)
  show ?thesis using Inr r by (simp add: s cleanup_keeps_submitted)
qed

lemma market_account: "privateKeyToAccount market_chain k = Inr ''0x90F8bf6A479f320ead074411a4B0e7944Ea8c9C1''"
  by (simp add: market_chain_def offline_chain_def)

lemma market_token:
  "getTokenInfo market_chain UNI_ADDRESS = Inr \<lparr>ti_symbol = ''UNI'', ti_name = ''Uniswap'', ti_decimals = 18\<rparr>"
  by (simp add: getTokenInfo_def market_chain_def offline_chain_def and_then_def UNI_ADDRESS_def
      toLowerCase_def lower_char_def)

lemma units_of_3_5: "toTokenUnits ''3.5'' 18 = Inr ''3500000000000000000''"
  by (simp add: unit_simps)

text \<open>
  In the market world, where every read is answered and the wallet holds enough of the
  token, selling 3.5 UNI at 1% slippage ends in the reference error with nothing submitted.
\<close>

theorem sellToken_never_trades_witness:
  "privateKeyToAccount market_chain ''0xkey'' = Inr ''0x90F8bf6A479f320ead074411a4B0e7944Ea8c9C1'' \<and>
   getTokenInfo market_chain UNI_ADDRESS = Inr \<lparr>ti_symbol = ''UNI'', ti_name = ''Uniswap'', ti_decimals = 18\<rparr> \<and>
   toTokenUnits ''3.5'' 18 = Inr ''3500000000000000000'' \<and>
   fst (sellToken market_chain fresh_engine ''0xkey'' UNI_ADDRESS ''3.5'' (number 1 1))
     = Inl (ReferenceError ''tokenContract'') \<and>
   submitted (snd (sellToken market_chain fresh_engine ''0xkey'' UNI_ADDRESS ''3.5'' (number 1 1))) = []"
  using market_account [of "''0xkey''"] market_token units_of_3_5
    sellToken_never_trades [of market_chain fresh_engine "''0xkey''" UNI_ADDRESS "''3.5''" "number 1 1"]
  by (simp add: fresh_engine_def)

section \<open>The risk heuristic in the four entry points\<close>

lemma checkForHoneypot_iff:
  "checkForHoneypot c tokenAddress =
     (\<exists>code. getCode c tokenAddress = Inr code \<and>
        (50000 < length code \<or>
         (str_includes code ''owner'' \<and> str_includes code ''blacklist'' \<and> str_includes code ''swap'')))"
  by (cases "getCode c tokenAddress") (simp_all add: checkForHoneypot_def Let_def)

lemma buyToken_order_aborts:
  "checkForHoneypot c tokenAddress \<Longrightarrow>
     \<exists>e. buyToken_order c walletAddress tokenAddress bnbAmount slippagePercent = Inl e"
  by (simp add: buyToken_order_def and_then_def split: sum.splits)

lemma buyTokenWithFeeTier_order_aborts:
  "checkForHoneypot c tokenAddress \<Longrightarrow>
     \<exists>e. buyTokenWithFeeTier_order c walletAddress tokenAddress bnbAmount slippagePercent fee = Inl e"
  by (simp add: buyTokenWithFeeTier_order_def and_then_def split: sum.splits)

lemma buyToken_aborts:
  assumes "checkForHoneypot c tokenAddress"
  shows "(\<exists>e. fst (buyToken c st privateKey tokenAddress bnbAmount slippagePercent) = Inl e) \<and>
         submitted (snd (buyToken c st privateKey tokenAddress bnbAmount slippagePercent)) = submitted st"
proof (cases "privateKeyToAccount c privateKey")
  case (Inl e)
  then show ?thesis by (simp add: buyToken_def or_cleanup_def cleanup_keeps_submitted)
next
  case (Inr walletAddress)
  obtain e where "buyToken_order c walletAddress tokenAddress bnbAmount slippagePercent = Inl e"
    using assms buyToken_order_aborts by blast
  with Inr show ?thesis by (simp add: buyToken_def or_cleanup_def cleanup_keeps_submitted)
qed

lemma buyTokenWithFeeTier_aborts:
  assumes "checkForHoneypot c tokenAddress"
  shows "(\<exists>e. fst (buyTokenWithFeeTier c st privateKey tokenAddress bnbAmount slippagePercent fee) = Inl e) \<and>
         submitted (snd (buyTokenWithFeeTier c st privateKey tokenAddress bnbAmount slippagePercent fee))
           = submitted st"
proof (cases "privateKeyToAccount c privateKey")
  case (Inl e)
  then show ?thesis by (simp add: buyTokenWithFeeTier_def or_cleanup_def cleanup_keeps_submitted)
next
  case (Inr walletAddress)
  obtain e where "buyTokenWithFeeTier_order c walletAddress tokenAddress bnbAmount slippagePercent fee = Inl e"
    using assms buyTokenWithFeeTier_order_aborts by blast
  with Inr show ?thesis by (simp add: buyTokenWithFeeTier_def or_cleanup_def cleanup_keeps_submitted)
qed

text \<open>Nothing on the two sale paths depends on the two reads of the heuristic.\<close>

lemma getTokenInfo_code:
  "getTokenInfo (c\<lparr>getCode := g, totalSupply := ts\<rparr>) = getTokenInfo c"
  by (intro ext) (simp add: getTokenInfo_def
        cong: sum.case_cong prod.case_cong option.case_cong if_cong)

lemma sortedTokens_code:
  "sortedTokens (c\<lparr>getCode := g, totalSupply := ts\<rparr>) = sortedTokens c"
  by (intro ext) (simp add: sortedTokens_def
        cong: sum.case_cong prod.case_cong option.case_cong if_cong)

lemma validatePancakeV3Pool_code:
  "validatePancakeV3Pool (c\<lparr>getCode := g, totalSupply := ts\<rparr>) = validatePancakeV3Pool c"
  by (intro ext) (simp add: validatePancakeV3Pool_def sortedTokens_code
        cong: sum.case_cong prod.case_cong option.case_cong if_cong)

lemma scan_fee_tiers_code:
  "scan_fee_tiers (c\<lparr>getCode := g, totalSupply := ts\<rparr>) tokenA tokenB fees acc
     = scan_fee_tiers c tokenA tokenB fees acc"
  by (induction c tokenA tokenB fees acc rule: scan_fee_tiers.induct)
     (simp_all split: sum.splits)

lemma first_existing_pool_code:
  "first_existing_pool (c\<lparr>getCode := g, totalSupply := ts\<rparr>) tokenA tokenB fees
     = first_existing_pool c tokenA tokenB fees"
  by (induction fees) (simp_all split: sum.splits)

lemma findBestFeeTier_code:
  "findBestFeeTier (c\<lparr>getCode := g, totalSupply := ts\<rparr>) = findBestFeeTier c"
  by (intro ext) (simp add: findBestFeeTier_def scan_fee_tiers_code first_existing_pool_code
        cong: sum.case_cong prod.case_cong option.case_cong if_cong)

lemma select_feeTier_code:
  "select_feeTier (c\<lparr>getCode := g, totalSupply := ts\<rparr>) = select_feeTier c"
  by (intro ext) (simp add: select_feeTier_def validatePancakeV3Pool_code
        cong: sum.case_cong prod.case_cong option.case_cong if_cong)

lemma pinned_feeTier_code:
  "pinned_feeTier (c\<lparr>getCode := g, totalSupply := ts\<rparr>) = pinned_feeTier c"
  by (intro ext) (simp add: pinned_feeTier_def validatePancakeV3Pool_code
        cong: sum.case_cong prod.case_cong option.case_cong if_cong)

lemma pool_state_code:
  "pool_state (c\<lparr>getCode := g, totalSupply := ts\<rparr>) = pool_state c"
  by (intro ext) (simp add: pool_state_def sortedTokens_code
        cong: sum.case_cong prod.case_cong option.case_cong if_cong)

lemma sellToken_quote_code:
  "sellToken_quote (c\<lparr>getCode := g, totalSupply := ts\<rparr>) = sellToken_quote c"
  by (intro ext) (simp add: sellToken_quote_def pool_state_code
        cong: sum.case_cong prod.case_cong option.case_cong if_cong)

lemma sellTokenWithFeeTier_quote_code:
  "sellTokenWithFeeTier_quote (c\<lparr>getCode := g, totalSupply := ts\<rparr>) = sellTokenWithFeeTier_quote c"
  by (intro ext) (simp add: sellTokenWithFeeTier_quote_def pool_state_code
        cong: sum.case_cong prod.case_cong option.case_cong if_cong)

lemma sellToken_order_code:
  "sellToken_order (c\<lparr>getCode := g, totalSupply := ts\<rparr>) = sellToken_order c"
  by (intro ext)
     (simp add: sellToken_order_def getTokenInfo_code select_feeTier_code findBestFeeTier_code
        sellToken_quote_code
        cong: sum.case_cong prod.case_cong option.case_cong if_cong)

lemma sellTokenWithFeeTier_order_code:
  "sellTokenWithFeeTier_order (c\<lparr>getCode := g, totalSupply := ts\<rparr>) = sellTokenWithFeeTier_order c"
  by (intro ext)
     (simp add: sellTokenWithFeeTier_order_def getTokenInfo_code pinned_feeTier_code
        sellTokenWithFeeTier_quote_code
        cong: sum.case_cong prod.case_cong option.case_cong if_cong)

lemma send_swap_code:
  "send_swap (c\<lparr>getCode := g, totalSupply := ts\<rparr>) = send_swap c"
  by (intro ext) (simp add: send_swap_def
        cong: sum.case_cong prod.case_cong option.case_cong if_cong)

lemma ensure_allowance_code:
  "ensure_allowance (c\<lparr>getCode := g, totalSupply := ts\<rparr>) = ensure_allowance c"
  by (intro ext) (simp add: ensure_allowance_def
        cong: sum.case_cong prod.case_cong option.case_cong if_cong)

lemma submit_sell_code:
  "submit_sell (c\<lparr>getCode := g, totalSupply := ts\<rparr>) = submit_sell c"
  by (intro ext) (simp add: submit_sell_def ensure_allowance_code send_swap_code
        cong: sum.case_cong prod.case_cong option.case_cong if_cong)

lemma cleanup_code:
  "cleanup (c\<lparr>getCode := g, totalSupply := ts\<rparr>) = cleanup c"
  by (intro ext) (simp add: cleanup_def
        cong: sum.case_cong prod.case_cong option.case_cong if_cong)

lemma or_cleanup_code:
  "or_cleanup (c\<lparr>getCode := g, totalSupply := ts\<rparr>) = or_cleanup c"
  by (intro ext) (simp add: or_cleanup_def cleanup_code
        cong: sum.case_cong prod.case_cong option.case_cong if_cong)

lemma sellToken_code:
  "sellToken (c\<lparr>getCode := g, totalSupply := ts\<rparr>) = sellToken c"
  by (intro ext) (simp add: sellToken_def or_cleanup_code sellToken_order_code submit_sell_code
        cong: sum.case_cong prod.case_cong option.case_cong if_cong)

lemma sellTokenWithFeeTier_code:
  "sellTokenWithFeeTier (c\<lparr>getCode := g, totalSupply := ts\<rparr>) = sellTokenWithFeeTier c"
  by (intro ext)
     (simp add: sellTokenWithFeeTier_def or_cleanup_code sellTokenWithFeeTier_order_code
        submit_sell_code
        cong: sum.case_cong prod.case_cong option.case_cong if_cong)

text \<open>
  Claim C9, as the code has it. A positive result of the heuristic makes \<^verbatim>\<open>buyToken\<close> and
  \<^verbatim>\<open>buyTokenWithFeeTier\<close> return an error with nothing submitted. A failed \<^verbatim>\<open>getCode\<close> read
  gives a negative result, and the \<^verbatim>\<open>totalSupply\<close> read, failed or not, does not change
  the result. The two sale entry points do not consult the heuristic: whatever the two
  reads of the heuristic answer, \<^verbatim>\<open>sellToken\<close> and \<^verbatim>\<open>sellTokenWithFeeTier\<close> end the same way.
\<close>

theorem honeypot_gate:
  "(checkForHoneypot c tokenAddress \<longrightarrow>
      (\<exists>e. fst (buyToken c st privateKey tokenAddress amount slippagePercent) = Inl e) \<and>
      submitted (snd (buyToken c st privateKey tokenAddress amount slippagePercent)) = submitted st \<and>
      (\<exists>e. fst (buyTokenWithFeeTier c st privateKey tokenAddress amount slippagePercent fee) = Inl e) \<and>
      submitted (snd (buyTokenWithFeeTier c st privateKey tokenAddress amount slippagePercent fee))
        = submitted st) \<and>
   (\<forall>e. getCode c tokenAddress = Inl e \<longrightarrow> \<not> checkForHoneypot c tokenAddress) \<and>
   checkForHoneypot (c\<lparr>totalSupply := ts\<rparr>) tokenAddress = checkForHoneypot c tokenAddress \<and>
   sellToken (c\<lparr>getCode := g, totalSupply := ts\<rparr>) st privateKey tokenAddress amount slippagePercent
     = sellToken c st privateKey tokenAddress amount slippagePercent \<and>
   sellTokenWithFeeTier (c\<lparr>getCode := g, totalSupply := ts\<rparr>) st privateKey tokenAddress amount
       slippagePercent fee
     = sellTokenWithFeeTier c st privateKey tokenAddress amount slippagePercent fee"
proof -
  have a: "\<forall>e. getCode c tokenAddress = Inl e \<longrightarrow> \<not> checkForHoneypot c tokenAddress"
    by (simp add: checkForHoneypot_iff)
  have b: "checkForHoneypot (c\<lparr>totalSupply := ts\<rparr>) tokenAddress = checkForHoneypot c tokenAddress"
    by (simp add: checkForHoneypot_iff)
  show ?thesis
    using a b buyToken_aborts [of c tokenAddress st privateKey amount slippagePercent]
      buyTokenWithFeeTier_aborts [of c tokenAddress st privateKey amount slippagePercent fee]
    by (simp add: sellToken_code sellTokenWithFeeTier_code)
qed

text \<open>A sale and two buys in the market world, step by step.\<close>

lemma market_validates: "validatePancakeV3Pool market_chain UNI_ADDRESS FEE_MEDIUM"
proof -
  have p: "getPool market_chain UNI_ADDRESS WBNB_ADDRESS FEE_MEDIUM = Inr (pool_at 2500)"
      "pool_at 2500 \<noteq> ZERO_ADDRESS"
      "liquidity market_chain (pool_at 2500) = Inr 5000000000000"
      "slot0 market_chain (pool_at 2500) = Inr 79228162514264337593543950336"
    by (simp_all add: market_chain_def offline_chain_def FEE_MEDIUM_def pool_at_def ZERO_ADDRESS_def
        string_simps)
  show ?thesis by (simp add: validatePancakeV3Pool_def sortedTokens_market p)
qed

lemma market_pinned: "pinned_feeTier market_chain UNI_ADDRESS FEE_MEDIUM = Inr FEE_MEDIUM"
  by (simp add: pinned_feeTier_def market_validates)

lemma market_quote:
  "sellTokenWithFeeTier_quote market_chain UNI_ADDRESS tokenInfo FEE_MEDIUM encoded amountIn
     = Inr (1000000, False)"
proof -
  have "quoter_amount (quoteExactInput market_chain encoded amountIn) = Inr 1000000"
    by (simp add: quoter_amount_def market_chain_def offline_chain_def)
  from quote_level1 [OF this] show ?thesis by simp
qed

lemma minimum_of_quote: "amountOutMin_direct 1000000 (number 1 1) = Inr 990000"
proof -
  have a: "toBN (show_int 1000000) = Inr 1000000" by (rule toBN_show_int)
  have b: "toBN (number_toString (slippageFactor (number 1 1))) = Inr 9900"
    by (simp add: slippageFactor_1 text_of_9900 string_simps library_simps)
  show ?thesis by (simp add: amountOutMin_direct_def and_then_def a b toBN_10000 BN_div_def)
qed

lemma amount_3_5: "toBN ''3500000000000000000'' = Inr 3500000000000000000"
  by (simp add: string_simps library_simps)

lemma market_balance: "balanceOf market_chain t w = Inr 5000000000000000000"
  by (simp add: market_chain_def offline_chain_def)

lemma market_order:
  "sellTokenWithFeeTier_order market_chain w UNI_ADDRESS ''3.5'' (number 1 1) FEE_MEDIUM =
     Inr \<lparr>order_path = ''0x'' @ drop 2 UNI_ADDRESS @ padStart 6 (show_hex FEE_MEDIUM) @ drop 2 WBNB_ADDRESS,
          order_amountIn = ''3500000000000000000'', order_amountOutMin = 990000\<rparr>"
  apply (simp add: sellTokenWithFeeTier_order_def market_token units_of_3_5 tokenContract_declared
      and_then_Inr market_balance amount_3_5 market_pinned  market_quote
      minimum_of_quote del: append.simps)
  apply (simp only: encodePath_single_hop and_then_Inr)
  done

lemma gas_200000: "gas_limit 200000 = 220000"
proof -
  have a: "number 200000 1 = Double 3125 6" by (simp add: number_simps)
  have b: "number 11 10 = Double 2476979795053773 (- 51)" by (simp add: number_simps)
  have c: "number_mul (Double 3125 6) (Double 2476979795053773 (- 51)) = Double 7559142440960001 (- 35)"
    by (simp add: number_simps)
  have d: "Math_floor (Double 7559142440960001 (- 35)) = 220000" by (simp add: number_simps)
  show ?thesis by (simp add: gas_limit_def a b c d)
qed


lemma market_account_reads:
  "getTransactionCount market_chain w = Inr 7"
  "allowance market_chain t w s = Inr 9000000000000000000"
  "getGasPrice market_chain = Inr 3000000000"
  "encodeABI market_chain p = Inr ''0xb858183f''"
  "estimateGas market_chain p w v = Inr 200000"
  "sendTransaction market_chain tx = Inr ''0xfeed''"
  "clock market_chain = 1700000000"
  by (simp_all add: market_chain_def offline_chain_def)

lemma market_allowance:
  "ensure_allowance market_chain st (Inr UNI_ADDRESS) w ''3500000000000000000'' n = (Inr n, st)"
  by (simp add: ensure_allowance_def and_then_Inr market_account_reads amount_3_5)

lemma market_send:
  "send_swap market_chain st w ord val n =
     (Inr ''0xfeed'',
      st\<lparr>submitted := submitted st @
            [SentTransaction \<lparr>tx_from = w, tx_to = PANCAKESWAP_ROUTER_ADDRESS,
               tx_data = ''0xb858183f'', tx_value = val, tx_gas = 220000,
               tx_gasPrice = 3000000000, tx_nonce = n\<rparr>],
          wallet := removeAll w (wallet st)\<rparr>)"
  by (simp add: send_swap_def market_account_reads gas_200000)

lemma market_sale:
  "sellTokenWithFeeTier market_chain fresh_engine ''0xkey'' UNI_ADDRESS ''3.5'' (number 1 1) FEE_MEDIUM =
     (Inr ''0xfeed'',
      \<lparr>nonceCache = [''0x90F8bf6A479f320ead074411a4B0e7944Ea8c9C1'' \<mapsto> 7],
       wallet = [],
       submitted =
         [SentTransaction \<lparr>tx_from = ''0x90F8bf6A479f320ead074411a4B0e7944Ea8c9C1'',
            tx_to = PANCAKESWAP_ROUTER_ADDRESS, tx_data = ''0xb858183f'', tx_value = None,
            tx_gas = 220000, tx_gasPrice = 3000000000, tx_nonce = 7\<rparr>]\<rparr>)"
  by (simp add: sellTokenWithFeeTier_def market_account market_order tokenContract_declared
      submit_sell_def getNextNonce_def market_account_reads market_allowance market_send
      or_cleanup_def fresh_engine_def)

lemma flagged_code: "checkForHoneypot flagged_chain UNI_ADDRESS"
  by (simp add: checkForHoneypot_iff flagged_chain_def)

lemma flagged_as_update:
  "flagged_chain = market_chain\<lparr>getCode := (\<lambda>a. Inr (''0x'' @ replicate 50000 CHR ''6'')),
                                totalSupply := totalSupply market_chain\<rparr>"
  by (simp add: flagged_chain_def)

lemma flagged_reads:
  "getTokenInfo flagged_chain = getTokenInfo market_chain"
  "findBestFeeTier flagged_chain = findBestFeeTier market_chain"
  "select_feeTier flagged_chain = select_feeTier market_chain"
  "pinned_feeTier flagged_chain = pinned_feeTier market_chain"
  "sellTokenWithFeeTier flagged_chain = sellTokenWithFeeTier market_chain"
  by (simp_all only: flagged_as_update getTokenInfo_code findBestFeeTier_code select_feeTier_code
      pinned_feeTier_code sellTokenWithFeeTier_code)

lemma market_best: "findBestFeeTier market_chain WBNB_ADDRESS UNI_ADDRESS = FEE_MEDIUM"
  by (simp add: findBestFeeTier_def feeTiers_def FEE_LOWEST_def FEE_LOW_def FEE_MEDIUM_def
      FEE_HIGH_def market_chain_def offline_chain_def pool_at_def ZERO_ADDRESS_def string_simps)

lemma market_selected: "select_feeTier market_chain UNI_ADDRESS FEE_MEDIUM = Inr FEE_MEDIUM"
  by (simp add: select_feeTier_def market_validates)

lemma wei_of_half: "toWei ''0.5'' ''ether'' = Inr ''500000000000000000''"
  by (simp add: unit_simps)

lemma amount_half: "toBN ''500000000000000000'' = Inr 500000000000000000"
  by (simp add: string_simps library_simps)

lemma flagged_balance: "getBalance flagged_chain w = Inr 2000000000000000000"
  by (simp add: flagged_chain_def market_chain_def offline_chain_def)

lemma flagged_account:
  "privateKeyToAccount flagged_chain k = Inr ''0x90F8bf6A479f320ead074411a4B0e7944Ea8c9C1''"
  by (simp add: flagged_chain_def market_chain_def offline_chain_def)

lemma flagged_buy_order:
  "buyToken_order flagged_chain w UNI_ADDRESS ''0.5'' s = Inl HONEYPOT_SUSPECTED"
  by (simp add: buyToken_order_def and_then_Inr flagged_balance wei_of_half amount_half
      flagged_reads market_token market_best market_selected flagged_code)

lemma flagged_pinned_buy_order:
  "buyTokenWithFeeTier_order flagged_chain w UNI_ADDRESS ''0.5'' s FEE_MEDIUM = Inl HONEYPOT_SUSPECTED"
  by (simp add: buyTokenWithFeeTier_order_def and_then_Inr flagged_balance wei_of_half amount_half
      flagged_reads market_token market_pinned flagged_code)

lemma flagged_buy:
  "fst (buyToken flagged_chain st ''0xkey'' UNI_ADDRESS ''0.5'' s) = Inl HONEYPOT_SUSPECTED"
  by (simp add: buyToken_def or_cleanup_def flagged_account flagged_buy_order)

lemma flagged_pinned_buy:
  "fst (buyTokenWithFeeTier flagged_chain st ''0xkey'' UNI_ADDRESS ''0.5'' s FEE_MEDIUM)
     = Inl HONEYPOT_SUSPECTED"
  by (simp add: buyTokenWithFeeTier_def or_cleanup_def flagged_account flagged_pinned_buy_order)

text \<open>
  With the long code the heuristic is positive and both buy entry points stop with the
  honeypot error, nothing submitted; with the node offline the code read fails and the
  heuristic is negative.
\<close>

theorem honeypot_gate_witness:
  "checkForHoneypot flagged_chain UNI_ADDRESS \<and>
   fst (buyToken flagged_chain fresh_engine ''0xkey'' UNI_ADDRESS ''0.5'' (number 1 1))
     = Inl HONEYPOT_SUSPECTED \<and>
   submitted (snd (buyToken flagged_chain fresh_engine ''0xkey'' UNI_ADDRESS ''0.5'' (number 1 1))) = [] \<and>
   fst (buyTokenWithFeeTier flagged_chain fresh_engine ''0xkey'' UNI_ADDRESS ''0.5'' (number 1 1) FEE_MEDIUM)
     = Inl HONEYPOT_SUSPECTED \<and>
   submitted (snd (buyTokenWithFeeTier flagged_chain fresh_engine ''0xkey'' UNI_ADDRESS ''0.5''
       (number 1 1) FEE_MEDIUM)) = [] \<and>
   getCode offline_chain UNI_ADDRESS = Inl (Error ''offline'') \<and>
   \<not> checkForHoneypot offline_chain UNI_ADDRESS"
proof -
  have a: "checkForHoneypot flagged_chain UNI_ADDRESS" by (rule flagged_code)
  have d: "getCode offline_chain UNI_ADDRESS = Inl (Error ''offline'')"
    by (simp add: offline_chain_def)
  have s: "submitted (snd (buyToken flagged_chain fresh_engine ''0xkey'' UNI_ADDRESS ''0.5'' (number 1 1)))
        = submitted fresh_engine \<and>
      submitted (snd (buyTokenWithFeeTier flagged_chain fresh_engine ''0xkey'' UNI_ADDRESS ''0.5''
        (number 1 1) FEE_MEDIUM)) = submitted fresh_engine"
    using a honeypot_gate [where c = flagged_chain and tokenAddress = UNI_ADDRESS
        and st = fresh_engine and privateKey = "''0xkey''" and amount = "''0.5''"
        and slippagePercent = "number 1 1" and fee = FEE_MEDIUM
        and g = "getCode flagged_chain" and ts = "totalSupply flagged_chain"]
    by blast
  have n: "\<not> checkForHoneypot offline_chain UNI_ADDRESS"
    using d honeypot_gate [where c = offline_chain and tokenAddress = UNI_ADDRESS
        and st = fresh_engine and privateKey = "''0xkey''" and amount = "''0.5''"
        and slippagePercent = "number 1 1" and fee = FEE_MEDIUM
        and g = "getCode offline_chain" and ts = "totalSupply offline_chain"]
    by blast
  show ?thesis using a d s n by (simp add: flagged_buy flagged_pinned_buy fresh_engine_def)
qed

text \<open>
  A sale is not stopped: with the same long code, for which the heuristic is positive,
  \<^verbatim>\<open>sellTokenWithFeeTier\<close> returns the transaction hash and the swap has been submitted.
\<close>

theorem honeypot_not_consulted_on_sale:
  "checkForHoneypot flagged_chain UNI_ADDRESS \<and>
   fst (sellTokenWithFeeTier flagged_chain fresh_engine ''0xkey'' UNI_ADDRESS ''3.5'' (number 1 1) FEE_MEDIUM)
     = Inr ''0xfeed'' \<and>
   submitted (snd (sellTokenWithFeeTier flagged_chain fresh_engine ''0xkey'' UNI_ADDRESS ''3.5''
       (number 1 1) FEE_MEDIUM))
     = [SentTransaction \<lparr>tx_from = ''0x90F8bf6A479f320ead074411a4B0e7944Ea8c9C1'',
          tx_to = PANCAKESWAP_ROUTER_ADDRESS, tx_data = ''0xb858183f'', tx_value = None,
          tx_gas = 220000, tx_gasPrice = 3000000000, tx_nonce = 7\<rparr>]"
  by (simp add: flagged_code flagged_reads market_sale)

end
